theory Spec2Isabelle
  imports Complex_Main "HOL-Library.AList" "HOL-Library.Sublist"
begin

section \<open>Strings and paths\<close>

text \<open>
  Strings are ASCII character lists. \<open>str.lower()\<close> maps the letters A-Z to a-z and
  leaves every other character alone.
\<close>

definition lower_char :: "char \<Rightarrow> char" where
  "lower_char c =
     (case map_of (zip ''ABCDEFGHIJKLMNOPQRSTUVWXYZ'' ''abcdefghijklmnopqrstuvwxyz'') c of
        Some d \<Rightarrow> d
      | None \<Rightarrow> c)"

definition lower :: "string \<Rightarrow> string" where
  "lower s = map lower_char s"

text \<open>\<open>s.endswith(t)\<close>.\<close>

definition endswith :: "string \<Rightarrow> string \<Rightarrow> bool" where
  "endswith s t = (length t \<le> length s \<and> drop (length s - length t) s = t)"

text \<open>\<open>s.rfind(c)\<close>: the index of the last occurrence, \<open>None\<close> for Python's -1.\<close>

fun rfind :: "char \<Rightarrow> string \<Rightarrow> nat option" where
  "rfind c [] = None"
| "rfind c (x # xs) =
     (case rfind c xs of
        Some i \<Rightarrow> Some (Suc i)
      | None \<Rightarrow> if x = c then Some 0 else None)"

text \<open>
  A \<open>pathlib.Path\<close> is the list of its components below the root of the file system.
  \<open>name\<close>, \<open>parent\<close>, \<open>suffix\<close>, \<open>stem\<close> and \<open>with_suffix\<close> follow pathlib: the suffix
  starts at the last dot of the name unless that dot is the first or the last character.
  \<open>joinpath p n\<close> is \<open>p / n\<close> for a name \<open>n\<close> that is one plain component (a file
  name, a language tag).
\<close>

type_synonym path = "string list"

definition name :: "path \<Rightarrow> string" where
  "name p = (if p = [] then [] else last p)"

definition parent :: "path \<Rightarrow> path" where
  "parent p = butlast p"

definition joinpath :: "path \<Rightarrow> string \<Rightarrow> path" where
  "joinpath p n = p @ [n]"

definition suffix_of :: "path \<Rightarrow> string" where
  "suffix_of p =
     (case rfind CHR ''.'' (name p) of
        None \<Rightarrow> []
      | Some i \<Rightarrow> if 0 < i \<and> Suc i < length (name p) then drop i (name p) else [])"

definition stem :: "path \<Rightarrow> string" where
  "stem p =
     (case rfind CHR ''.'' (name p) of
        None \<Rightarrow> name p
      | Some i \<Rightarrow> if 0 < i \<and> Suc i < length (name p) then take i (name p) else name p)"

datatype py_error =
    AttributeError
  | TypeError
  | ValueError
  | KeyError
  | UnboundLocalError
  | RecursionError
  | OSError
  | Win32Error
  | JSONDecodeError
  | CalledProcessError int

text \<open>
  \<open>with_suffix\<close> is only called with the literals \<open>.wav\<close>, \<open>.xwm\<close> and \<open>.lip\<close>, which
  are valid suffixes; what is left of pathlib's checks is the one on the path: a path
  with an empty name raises \<open>ValueError\<close>.
\<close>

definition with_suffix :: "path \<Rightarrow> string \<Rightarrow> py_error + path" where
  "with_suffix p s =
     (if name p = [] then Inl ValueError
      else Inr (butlast p @ [take (length (name p) - length (suffix_of p)) (name p) @ s]))"

text \<open>
  \<open>Path.glob\<close> with a pattern of one component matches the names of the directory's
  entries with \<open>fnmatch\<close>: \<open>*\<close> stands for any run of characters, \<open>?\<close> for any single
  character. The program runs on Windows (it imports \<open>win32api\<close>), where pathlib
  compares without regard to case.
\<close>

fun wild :: "string \<Rightarrow> string \<Rightarrow> bool" where
  "wild [] [] = True"
| "wild [] (c # cs) = False"
| "wild (p # ps) [] = (p = CHR ''*'' \<and> wild ps [])"
| "wild (p # ps) (c # cs) =
     (if p = CHR ''*'' then wild ps (c # cs) \<or> wild (p # ps) cs
      else (p = CHR ''?'' \<or> p = c) \<and> wild ps cs)"

definition fnmatch :: "string \<Rightarrow> string \<Rightarrow> bool" where
  "fnmatch n pat = wild (lower pat) (lower n)"

section \<open>The file system\<close>

text \<open>
  A file is a JSON object of string values (what a localisation file is) or any other
  data; a directory lists its entries in the order in which the operating system
  enumerates them. The model has neither permissions nor locks: an operation fails
  exactly when the shape of the tree forbids it.
\<close>

datatype content = Json "(string \<times> string) list" | Data string

datatype node = File content | Dir "(string \<times> node) list"

fun lookup :: "node \<Rightarrow> path \<Rightarrow> node option" where
  "lookup n [] = Some n"
| "lookup (File c) (x # xs) = None"
| "lookup (Dir es) (x # xs) = (case map_of es x of None \<Rightarrow> None | Some c \<Rightarrow> lookup c xs)"

definition exists :: "node \<Rightarrow> path \<Rightarrow> bool" where
  "exists t p = (lookup t p \<noteq> None)"

definition is_dir :: "node \<Rightarrow> path \<Rightarrow> bool" where
  "is_dir t p = (case lookup t p of Some (Dir es) \<Rightarrow> True | _ \<Rightarrow> False)"

definition is_file :: "node \<Rightarrow> path \<Rightarrow> bool" where
  "is_file t p = (case lookup t p of Some (File c) \<Rightarrow> True | _ \<Rightarrow> False)"

text \<open>The names in a directory, in enumeration order; nothing for what is no directory.\<close>

definition listdir :: "node \<Rightarrow> path \<Rightarrow> string list" where
  "listdir t p = (case lookup t p of Some (Dir es) \<Rightarrow> map fst es | _ \<Rightarrow> [])"

text \<open>\<open>p.glob(pat)\<close>: the entries of \<open>p\<close> whose names match; empty when \<open>p\<close> is no directory.\<close>

definition glob :: "node \<Rightarrow> path \<Rightarrow> string \<Rightarrow> path list" where
  "glob t p pat = map (joinpath p) (filter (\<lambda>n. fnmatch n pat) (listdir t p))"

section \<open>Values, log records and the world\<close>

text \<open>
  The Python values the program stores in attributes and passes to the logger.
  \<open>VAttr n\<close> is a member \<open>n\<close> found on a class (a method, a slot); \<open>VSelf\<close> is a reference
  of an object to itself; \<open>VSection d\<close> is a \<open>LocalisationSection\<close> whose instance
  dictionary is \<open>d\<close>.
\<close>

datatype pyval =
    VNone
  | VStr string
  | VPath path
  | VLogger
  | VAttr string
  | VSelf
  | VExc py_error
  | VSection "(string \<times> pyval) list"

type_synonym obj = "(string \<times> pyval) list"

text \<open>
  A log record: the level, the message as the source writes it, and the values
  formatted into it.
\<close>

datatype level = DEBUG | INFO | WARNING | ERROR

type_synonym log_record = "level \<times> string \<times> pyval list"

text \<open>A command line: \<open>S s\<close> is a literal argument, \<open>P p\<close> is \<open>str(p)\<close> for a path.\<close>

datatype arg = S string | P path

record world =
  fs :: node
  logged :: "log_record list"
  procs :: "arg list list"

definition emit :: "level \<Rightarrow> string \<Rightarrow> pyval list \<Rightarrow> world \<Rightarrow> world" where
  "emit lv m vs w = w\<lparr>logged := logged w @ [(lv, m, vs)]\<rparr>"

text \<open>
  Code that may raise: a computation over a state returns the exception (\<open>Inl\<close>) or its
  value (\<open>Inr\<close>), with the state as the code left it in both cases.
\<close>

type_synonym ('s, 'a) exn = "'s \<Rightarrow> (py_error + 'a) \<times> 's"

definition ret :: "'a \<Rightarrow> ('s, 'a) exn" where
  "ret x s = (Inr x, s)"

definition raise :: "py_error \<Rightarrow> ('s, 'a) exn" where
  "raise e s = (Inl e, s)"

definition bind :: "('s, 'a) exn \<Rightarrow> ('a \<Rightarrow> ('s, 'b) exn) \<Rightarrow> ('s, 'b) exn" where
  "bind m f s = (case m s of (Inl e, s') \<Rightarrow> (Inl e, s') | (Inr x, s') \<Rightarrow> f x s')"

definition try_except :: "('s, 'a) exn \<Rightarrow> (py_error \<Rightarrow> ('s, 'a) exn) \<Rightarrow> ('s, 'a) exn" where
  "try_except m h s = (case m s of (Inl e, s') \<Rightarrow> h e s' | (Inr x, s') \<Rightarrow> (Inr x, s'))"

section \<open>Localisation (utilities/localisation.py)\<close>

subsection \<open>Attribute access\<close>

text \<open>
  \<open>object.__getattribute__\<close> finds a name in the instance dictionary or on the class.
  \<open>object_members\<close> are the names every class has from \<open>object\<close> and from its own
  creation. (The three of them that the class answers before the instance dictionary,
  \<open>__class__\<close>, \<open>__dict__\<close> and \<open>__weakref__\<close>, are the ones an instance dictionary never
  holds, see \<open>py_setattr\<close>.)
\<close>

definition object_members :: "string list" where
  "object_members =
     [''__class__'', ''__delattr__'', ''__dict__'', ''__dir__'', ''__doc__'', ''__eq__'',
      ''__format__'', ''__ge__'', ''__getattribute__'', ''__getstate__'', ''__gt__'',
      ''__hash__'', ''__init__'', ''__init_subclass__'', ''__le__'', ''__lt__'',
      ''__module__'', ''__ne__'', ''__new__'', ''__reduce__'', ''__reduce_ex__'',
      ''__repr__'', ''__setattr__'', ''__sizeof__'', ''__str__'', ''__subclasshook__'',
      ''__weakref__'']"

definition object_getattribute :: "(string \<Rightarrow> pyval option) \<Rightarrow> obj \<Rightarrow> string \<Rightarrow> pyval option" where
  "object_getattribute cls d n = (case map_of d n of Some v \<Rightarrow> Some v | None \<Rightarrow> cls n)"

text \<open>
  \<open>setattr(o, n, v)\<close> for a value \<open>v\<close> that is a string or a section: the interpreter
  refuses \<open>__class__\<close> and \<open>__dict__\<close> (TypeError) and \<open>__weakref__\<close> (AttributeError);
  every other name goes into the instance dictionary.
\<close>

definition py_setattr :: "obj \<Rightarrow> string \<Rightarrow> pyval \<Rightarrow> py_error + obj" where
  "py_setattr d n v =
     (if n = ''__class__'' \<or> n = ''__dict__'' then Inl TypeError
      else if n = ''__weakref__'' then Inl AttributeError
      else Inr (AList.update n v d))"

text \<open>class LocalisationSection: it defines \<open>__init__\<close>, \<open>__repr__\<close> and \<open>__getattribute__\<close>.\<close>

definition section_class :: "string \<Rightarrow> pyval option" where
  "section_class n = (if n \<in> set object_members then Some (VAttr n) else None)"

text \<open>\<open>LocalisationSection.__init__(logger, name)\<close>.\<close>

definition new_section :: "pyval \<Rightarrow> pyval \<Rightarrow> obj" where
  "new_section logger nm = [(''log'', logger), (''_name'', nm)]"

text \<open>
  \<open>LocalisationSection.__repr__\<close> returns \<open>self._name\<close>. The name is a string wherever
  this module makes or fills a section (the constructor gets a file's stem or the
  looked-up name, and loaded values are strings); the last case stands for any other
  value and is not reached from \<open>Localisator\<close>.
\<close>

definition section_repr :: "obj \<Rightarrow> string" where
  "section_repr d =
     (case object_getattribute section_class d ''_name'' of
        Some (VStr s) \<Rightarrow> s
      | _ \<Rightarrow> ''LocalisationSection'')"

definition level_name :: "level \<Rightarrow> string" where
  "level_name lv =
     (case lv of DEBUG \<Rightarrow> ''debug'' | INFO \<Rightarrow> ''info'' | WARNING \<Rightarrow> ''warning'' | ERROR \<Rightarrow> ''error'')"

text \<open>
  \<open>section_getattribute d n\<close> is \<open>LocalisationSection.__getattribute__\<close> on the section
  with instance dictionary \<open>d\<close>. A miss reads \<open>self.log\<close> through the same method (a
  section without \<open>log\<close> would recurse until \<open>RecursionError\<close>), calls its \<open>warning\<close>
  and returns the name.

  \<open>call_log l lv m vs\<close> is the call \<open>l.debug(m)\<close>, \<open>l.info(m)\<close>, \<open>l.warning(m)\<close> or
  \<open>l.error(m)\<close> on the value \<open>l\<close>. A logger records the message. A section in the
  logger's place looks the method name up like any other attribute and gets a string,
  or another value that cannot be called: TypeError. A string, a path or \<open>None\<close> has no
  such attribute.
\<close>

function section_getattribute :: "obj \<Rightarrow> string \<Rightarrow> (world, pyval) exn"
  and call_log :: "pyval \<Rightarrow> level \<Rightarrow> string \<Rightarrow> pyval list \<Rightarrow> (world, unit) exn" where
  "section_getattribute d n w =
     (case object_getattribute section_class d n of
        Some v \<Rightarrow> (Inr v, w)
      | None \<Rightarrow>
          (case map_of d ''log'' of
             None \<Rightarrow> (Inl RecursionError, w)
           | Some l \<Rightarrow>
               (case call_log l WARNING ''Missing localisation for {__name!r} in {self!r}!''
                       [VStr n, VStr (section_repr d)] w of
                  (Inl e, w') \<Rightarrow> (Inl e, w')
                | (Inr u, w') \<Rightarrow> (Inr (VStr n), w'))))"
| "call_log VLogger lv m vs w = (Inr (), emit lv m vs w)"
| "call_log (VSection d) lv m vs w =
     (case section_getattribute d (level_name lv) w of
        (Inl e, w') \<Rightarrow> (Inl e, w')
      | (Inr v, w') \<Rightarrow> (Inl TypeError, w'))"
| "call_log VNone lv m vs w = (Inl AttributeError, w)"
| "call_log (VStr s) lv m vs w = (Inl AttributeError, w)"
| "call_log (VPath p) lv m vs w = (Inl AttributeError, w)"
| "call_log (VAttr a) lv m vs w = (Inl AttributeError, w)"
| "call_log VSelf lv m vs w = (Inl AttributeError, w)"
| "call_log (VExc x) lv m vs w = (Inl AttributeError, w)"
  by pat_completeness auto

lemma map_of_size_pyval:
  "map_of d k = Some v \<Longrightarrow> size v < Suc (size_list (size_prod (\<lambda>x. 0) size) d)"
  by (induction d) (auto split: if_splits)

termination section_getattribute
  by (relation "measure (\<lambda>x. case x of
         Inl (d, n, w) \<Rightarrow> 2 * size (VSection d)
       | Inr (l, lv, m, vs, w) \<Rightarrow> 2 * size l + 1)")
     (auto dest: map_of_size_pyval)

text \<open>
  class Localisator: the class attribute \<open>language\<close> and the methods. Its
  \<open>__getattribute__\<close> answers a miss with a warning and a new, empty section of that
  name.
\<close>

definition localisator_class :: "string \<Rightarrow> pyval option" where
  "localisator_class n =
     (if n = ''language'' then Some (VStr ''en-US'')
      else if n = ''load_lang'' \<or> n = ''get_available_langs'' \<or> n \<in> set object_members
        then Some (VAttr n)
      else None)"

definition localisator_getattribute :: "obj \<Rightarrow> string \<Rightarrow> (world, pyval) exn" where
  "localisator_getattribute d n w =
     (case object_getattribute localisator_class d n of
        Some v \<Rightarrow> (Inr v, w)
      | None \<Rightarrow>
          (case object_getattribute localisator_class d ''log'' of
             None \<Rightarrow> (Inl RecursionError, w)
           | Some l \<Rightarrow>
               (case call_log l WARNING ''Missing localisation section for {__name!r}!''
                       [VStr n] w of
                  (Inl e, w') \<Rightarrow> (Inl e, w')
                | (Inr u, w') \<Rightarrow> (Inr (VSection (new_section l (VStr n))), w'))))"

text \<open>
  \<open>Localisator.__init__(lang, lang_path)\<close>, for a language tag or \<open>System\<close>: the logger,
  the language and the language's directory under the localisation root. The tag is
  taken as one path component, as language tags and \<open>System\<close> are; a tag with a path
  separator in it is outside this model.
\<close>

definition init :: "string \<Rightarrow> path \<Rightarrow> obj" where
  "init lang lang_path =
     [(''log'', VLogger), (''language'', VStr lang),
      (''lang_path'', VPath (joinpath lang_path lang))]"

subsection \<open>Statements of \<open>Localisator\<close>'s methods\<close>

text \<open>
  The methods run over the object's instance dictionary and the world. \<open>self_attr n\<close>
  is the expression \<open>self.n\<close>, \<open>assign n v\<close> the statement \<open>self.n = v\<close> for the plain
  names the source assigns (\<open>language\<close>, \<open>lang_path\<close>), \<open>self_log\<close> a call of a logging
  method on \<open>self.log\<close>.
\<close>

type_synonym 'a loc = "(obj \<times> world, 'a) exn"

definition on_world :: "(world, 'a) exn \<Rightarrow> 'a loc" where
  "on_world m = (\<lambda>(self, w). case m w of (r, w') \<Rightarrow> (r, (self, w')))"

definition self_attr :: "string \<Rightarrow> pyval loc" where
  "self_attr n = (\<lambda>(self, w). case localisator_getattribute self n w of (r, w') \<Rightarrow> (r, (self, w')))"

definition assign :: "string \<Rightarrow> pyval \<Rightarrow> unit loc" where
  "assign n v = (\<lambda>(self, w). (Inr (), (AList.update n v self, w)))"

definition self_log :: "level \<Rightarrow> string \<Rightarrow> pyval list \<Rightarrow> unit loc" where
  "self_log lv m vs = bind (self_attr ''log'') (\<lambda>l. on_world (call_log l lv m vs))"

text \<open>
  \<open>v.parent\<close>, \<open>v / s\<close>, \<open>v.is_dir()\<close> and \<open>v.glob(pat)\<close> for the value of an attribute
  that should hold a path. On a section the attribute lookup answers with a string (and
  a warning), which can be neither divided nor called.
\<close>

definition get_parent :: "pyval \<Rightarrow> pyval loc" where
  "get_parent v =
     (case v of
        VPath p \<Rightarrow> ret (VPath (parent p))
      | VSection d \<Rightarrow> on_world (section_getattribute d ''parent'')
      | _ \<Rightarrow> raise AttributeError)"

definition truediv :: "pyval \<Rightarrow> pyval \<Rightarrow> pyval loc" where
  "truediv v s =
     (case (v, s) of
        (VPath p, VStr n) \<Rightarrow> ret (VPath (joinpath p n))
      | _ \<Rightarrow> raise TypeError)"

definition call_is_dir :: "pyval \<Rightarrow> bool loc" where
  "call_is_dir v =
     (case v of
        VPath p \<Rightarrow> (\<lambda>(self, w). (Inr (is_dir (fs w) p), (self, w)))
      | VSection d \<Rightarrow> bind (on_world (section_getattribute d ''is_dir'')) (\<lambda>f. raise TypeError)
      | _ \<Rightarrow> raise AttributeError)"

definition call_glob :: "pyval \<Rightarrow> string \<Rightarrow> path list loc" where
  "call_glob v pat =
     (case v of
        VPath p \<Rightarrow> (\<lambda>(self, w). (Inr (glob (fs w) p pat), (self, w)))
      | VSection d \<Rightarrow> bind (on_world (section_getattribute d ''glob'')) (\<lambda>f. raise TypeError)
      | _ \<Rightarrow> raise AttributeError)"

subsection \<open>\<open>Localisator.load_lang\<close>\<close>

text \<open>
  The platform: \<open>win32api.GetUserDefaultLangID()\<close>, which may raise, and the table
  \<open>locale.windows_locale\<close>, where a missing key raises \<open>KeyError\<close>.
\<close>

record platform =
  lang_id :: "py_error + nat"
  windows_locale :: "nat \<Rightarrow> string option"

text \<open>The first two statements of the \<open>try\<close> block: they bind \<open>system_language\<close>.\<close>

definition resolve :: "platform \<Rightarrow> py_error + string" where
  "resolve pf =
     (case lang_id pf of
        Inl e \<Rightarrow> Inl e
      | Inr i \<Rightarrow> (case windows_locale pf i of None \<Rightarrow> Inl KeyError | Some sl \<Rightarrow> Inr sl))"

text \<open>The rest of the \<open>try\<close> block, with \<open>system_language\<close> bound.\<close>

definition adopt :: "string \<Rightarrow> unit loc" where
  "adopt system_language =
     bind (self_log DEBUG ''Detected system language: {system_language}'' [VStr system_language]) (\<lambda>u.
     bind (assign ''language'' (VStr system_language)) (\<lambda>u.
     bind (self_attr ''lang_path'') (\<lambda>lp.
     bind (get_parent lp) (\<lambda>par.
     bind (truediv par (VStr system_language)) (\<lambda>np.
     assign ''lang_path'' np)))))"

text \<open>
  The \<open>except Exception as ex\<close> block. Its last statement reads the local variable
  \<open>system_language\<close>, which is bound only if the \<open>try\<close> block got past its second
  statement; Python evaluates the left operand \<open>self.lang_path.parent\<close> first.
\<close>

definition on_failure :: "py_error \<Rightarrow> string option \<Rightarrow> unit loc" where
  "on_failure ex system_language =
     bind (self_log ERROR ''Failed to get system language: {ex}'' [VExc ex]) (\<lambda>u.
     bind (assign ''language'' (VStr ''en _US'')) (\<lambda>u.
     bind (self_attr ''lang_path'') (\<lambda>lp.
     bind (get_parent lp) (\<lambda>par.
     (case system_language of
        None \<Rightarrow> raise UnboundLocalError
      | Some sl \<Rightarrow> bind (truediv par (VStr sl)) (\<lambda>np. assign ''lang_path'' np))))))"

definition detect_system_language :: "platform \<Rightarrow> unit loc" where
  "detect_system_language pf =
     (case resolve pf of
        Inl ex \<Rightarrow> on_failure ex None
      | Inr sl \<Rightarrow> try_except (adopt sl) (\<lambda>ex. on_failure ex (Some sl)))"

text \<open>The block under \<open>if not self.lang_path.is_dir()\<close>.\<close>

definition fall_back :: "unit loc" where
  "fall_back =
     bind (self_attr ''log'') (\<lambda>l.
     bind (self_attr ''language'') (\<lambda>lang.
     bind (on_world (call_log l WARNING
             ''Failed to load language '{self.language}': Localisation does not exist!'' [lang])) (\<lambda>u.
     bind (self_log INFO ''Falling back to 'en_US'...'' []) (\<lambda>u.
     bind (assign ''language'' (VStr ''en_US'')) (\<lambda>u.
     bind (self_attr ''lang_path'') (\<lambda>lp.
     bind (get_parent lp) (\<lambda>par.
     bind (self_attr ''language'') (\<lambda>lang'.
     bind (truediv par lang') (\<lambda>np.
     assign ''lang_path'' np)))))))))"

text \<open>
  \<open>open(lang_file)\<close> and \<open>json.load\<close>: a directory or a missing file cannot be opened,
  other data does not parse. The JSON content of the model is an object with string
  values, which is what a localisation file is; JSON of another shape (a list, nested
  objects), which \<open>json.load\<close> would parse and \<open>load_lang\<close> would fail on later, is not
  told apart from \<open>Data\<close>.
\<close>

definition read_json :: "path \<Rightarrow> (string \<times> string) list loc" where
  "read_json f =
     (\<lambda>(self, w).
        case lookup (fs w) f of
          Some (File (Json kvs)) \<Rightarrow> (Inr kvs, (self, w))
        | Some (File (Data s)) \<Rightarrow> (Inl JSONDecodeError, (self, w))
        | Some (Dir es) \<Rightarrow> (Inl OSError, (self, w))
        | None \<Rightarrow> (Inl OSError, (self, w)))"

text \<open>
  A run of \<open>setattr\<close> calls on one object, stopping at the first that raises: the
  exception, if any, and the dictionary as the calls left it.
\<close>

fun setattr_all :: "obj \<Rightarrow> (string \<times> pyval) list \<Rightarrow> py_error option \<times> obj" where
  "setattr_all d [] = (None, d)"
| "setattr_all d ((k, v) # kvs) =
     (case py_setattr d k v of
        Inl e \<Rightarrow> (Some e, d)
      | Inr d' \<Rightarrow> setattr_all d' kvs)"

text \<open>
  The body of the loop over the language's files. The section is created and stored
  under the file's stem; \<open>root_attr\<close> is that same object, so what the rest of the body
  sets on it shows in \<open>self\<close>, also when a \<open>setattr\<close> raises halfway. When the stem is
  \<open>__getattribute__\<close>, \<open>self.__getattribute__\<close> is the new section itself.
\<close>

definition populate :: "string \<Rightarrow> pyval \<Rightarrow> pyval \<Rightarrow> (string \<times> string) list \<Rightarrow> unit loc" where
  "populate st root_attr g lang_data =
     (\<lambda>(self, w).
        case root_attr of
          VSection d \<Rightarrow>
            (case setattr_all d ((''__getattribute__'', if st = ''__getattribute__'' then VSelf else g)
                                  # map (\<lambda>(k, v). (k, VStr v)) lang_data) of
               (None, d') \<Rightarrow> (Inr (), (AList.update st (VSection d') self, w))
             | (Some e, d') \<Rightarrow> (Inl e, (AList.update st (VSection d') self, w)))
        | _ \<Rightarrow> (Inl AttributeError, (self, w)))"

definition load_file :: "path \<Rightarrow> unit loc" where
  "load_file lang_file =
     bind (read_json lang_file) (\<lambda>lang_data.
     bind (self_attr ''log'') (\<lambda>l.
     bind (\<lambda>(self, w).
             case py_setattr self (stem lang_file) (VSection (new_section l (VStr (name lang_file)))) of
               Inl e \<Rightarrow> (Inl e, (self, w))
             | Inr self' \<Rightarrow> (Inr (), (self', w))) (\<lambda>u.
     bind (self_attr (stem lang_file)) (\<lambda>root_attr.
     bind (self_attr ''__getattribute__'') (\<lambda>g.
     populate (stem lang_file) root_attr g lang_data)))))"

fun load_files :: "path list \<Rightarrow> unit loc" where
  "load_files [] = ret ()"
| "load_files (f # rest) = bind (load_file f) (\<lambda>u. load_files rest)"

definition load_lang :: "platform \<Rightarrow> unit loc" where
  "load_lang pf =
     bind (self_attr ''language'') (\<lambda>lang.
     bind (if lang = VStr ''System'' then detect_system_language pf else ret ()) (\<lambda>u.
     bind (self_attr ''lang_path'') (\<lambda>lp.
     bind (call_is_dir lp) (\<lambda>d.
     bind (if \<not> d then fall_back else ret ()) (\<lambda>u.
     bind (self_attr ''lang_path'') (\<lambda>lp'.
     bind (call_glob lp' ''*.json'') (\<lambda>files.
     load_files files)))))))"

subsection \<open>\<open>Localisator.get_available_langs\<close>\<close>

definition get_available_langs :: "string list loc" where
  "get_available_langs =
     bind (self_attr ''lang_path'') (\<lambda>lp.
     bind (get_parent lp) (\<lambda>par.
     bind (call_glob par ''??_??'') (\<lambda>langs.
     ret (map name langs))))"

section \<open>The settings panel (settings/app_settings.py)\<close>

subsection \<open>The widgets\<close>

text \<open>
  The Qt widgets the panel reads, with the behaviour Qt documents for the calls the
  source makes. A spin box keeps its value between its minimum and its maximum:
  \<open>setRange\<close> and \<open>setValue\<close> bound the value, and so does every edit the user makes.
  A \<open>QSpinBox\<close> starts as 0 in 0..99.
\<close>

definition bound :: "'a::linorder \<Rightarrow> 'a \<Rightarrow> 'a \<Rightarrow> 'a" where
  "bound lo hi v = max lo (min hi v)"

record spin_box =
  sb_minimum :: int
  sb_maximum :: int
  sb_value :: int

definition new_spin_box :: spin_box where
  "new_spin_box = \<lparr>sb_minimum = 0, sb_maximum = 99, sb_value = 0\<rparr>"

definition sb_setRange :: "int \<Rightarrow> int \<Rightarrow> spin_box \<Rightarrow> spin_box" where
  "sb_setRange lo hi b =
     (let hi' = (if lo < hi then hi else lo)
      in \<lparr>sb_minimum = lo, sb_maximum = hi', sb_value = bound lo hi' (sb_value b)\<rparr>)"

definition sb_setValue :: "int \<Rightarrow> spin_box \<Rightarrow> spin_box" where
  "sb_setValue v b = b\<lparr>sb_value := bound (sb_minimum b) (sb_maximum b) v\<rparr>"

text \<open>
  A \<open>QDoubleSpinBox\<close> starts as 0.0 in 0.0..99.99. A finite float is the real number it
  denotes. \<open>setValue\<close> first rounds to the box's decimals; the rounding \<open>rnd\<close> is a
  parameter of the model, the bounding follows it.
\<close>

record double_spin_box =
  dsb_minimum :: real
  dsb_maximum :: real
  dsb_value :: real

definition new_double_spin_box :: double_spin_box where
  "new_double_spin_box = \<lparr>dsb_minimum = 0, dsb_maximum = 99.99, dsb_value = 0\<rparr>"

definition dsb_setRange :: "real \<Rightarrow> real \<Rightarrow> double_spin_box \<Rightarrow> double_spin_box" where
  "dsb_setRange lo hi b =
     (let hi' = (if lo < hi then hi else lo)
      in \<lparr>dsb_minimum = lo, dsb_maximum = hi', dsb_value = bound lo hi' (dsb_value b)\<rparr>)"

definition dsb_setValue :: "(real \<Rightarrow> real) \<Rightarrow> real \<Rightarrow> double_spin_box \<Rightarrow> double_spin_box" where
  "dsb_setValue rnd v b = b\<lparr>dsb_value := bound (dsb_minimum b) (dsb_maximum b) (rnd v)\<rparr>"

text \<open>
  A combo box that cannot be edited: its items and the index of the current one. The
  first item added becomes the current one; \<open>setCurrentText\<close> selects the first item
  with that text and does nothing when there is none; \<open>currentText\<close> is empty when no
  item is current.
\<close>

record combo_box =
  cb_items :: "string list"
  cb_current :: "nat option"

definition new_combo_box :: combo_box where
  "new_combo_box = \<lparr>cb_items = [], cb_current = None\<rparr>"

definition cb_addItems :: "string list \<Rightarrow> combo_box \<Rightarrow> combo_box" where
  "cb_addItems xs b =
     \<lparr>cb_items = cb_items b @ xs,
      cb_current = (if cb_current b = None \<and> cb_items b @ xs \<noteq> [] then Some 0 else cb_current b)\<rparr>"

fun find_index_of :: "string \<Rightarrow> string list \<Rightarrow> nat option" where
  "find_index_of x [] = None"
| "find_index_of x (y # ys) =
     (if x = y then Some 0 else map_option Suc (find_index_of x ys))"

definition cb_setCurrentText :: "string \<Rightarrow> combo_box \<Rightarrow> combo_box" where
  "cb_setCurrentText x b =
     (case find_index_of x (cb_items b) of
        Some i \<Rightarrow> b\<lparr>cb_current := Some i\<rparr>
      | None \<Rightarrow> b)"

definition cb_currentText :: "combo_box \<Rightarrow> string" where
  "cb_currentText b =
     (case cb_current b of
        Some i \<Rightarrow> if i < length (cb_items b) then cb_items b ! i else []
      | None \<Rightarrow> [])"

text \<open>\<open>str.capitalize()\<close>: the first character in upper case, the rest in lower case.\<close>

definition upper_char :: "char \<Rightarrow> char" where
  "upper_char c =
     (case map_of (zip ''abcdefghijklmnopqrstuvwxyz'' ''ABCDEFGHIJKLMNOPQRSTUVWXYZ'') c of
        Some d \<Rightarrow> d
      | None \<Rightarrow> c)"

definition capitalize :: "string \<Rightarrow> string" where
  "capitalize s = (case s of [] \<Rightarrow> [] | c # cs \<Rightarrow> upper_char c # lower cs)"

subsection \<open>\<open>AppSettings\<close>\<close>

text \<open>
  The application's configuration, with the types the specification declares for its
  entries. The panel keeps six widgets that hold values.
\<close>

record app_config =
  keep_logs_num :: int
  log_level :: string
  language :: string
  accent_color :: string
  detector_confidence :: real
  auto_bind_nxm :: bool

record app_settings =
  logs_num_box :: spin_box
  log_level_box :: combo_box
  app_lang_box :: combo_box
  accent_color_entry :: string
  confidence_box :: double_spin_box
  bind_nxm_checkbox :: bool

text \<open>
  \<open>AppSettings.__init__\<close>, as far as it sets the widgets' values. \<open>utils.LOG_LEVELS\<close> is
  not part of these sources: its values are the parameter \<open>log_levels\<close>. \<open>langs\<close> is
  what \<open>app.loc.get_available_langs()\<close> returned.
\<close>

definition app_settings_init ::
  "(real \<Rightarrow> real) \<Rightarrow> string list \<Rightarrow> string list \<Rightarrow> app_config \<Rightarrow> app_settings" where
  "app_settings_init rnd log_levels langs cfg =
     \<lparr>logs_num_box = sb_setValue (keep_logs_num cfg) (sb_setRange (- 1) 100 new_spin_box),
      log_level_box =
        cb_setCurrentText (capitalize (log_level cfg))
          (cb_addItems (map capitalize log_levels) new_combo_box),
      app_lang_box =
        cb_setCurrentText (language cfg)
          (cb_addItems langs (cb_addItems [''System''] new_combo_box)),
      accent_color_entry = accent_color cfg,
      confidence_box =
        dsb_setValue rnd (detector_confidence cfg) (dsb_setRange 0 1 new_double_spin_box),
      bind_nxm_checkbox = auto_bind_nxm cfg\<rparr>"

text \<open>
  What the user can do to the widgets: enter a number in a spin box, pick an item of a
  combo box, edit the colour text, accept a colour in the dialog of \<open>choose_color\<close>
  (\<open>None\<close>: the dialog was cancelled), tick or untick the check box.
\<close>

datatype user_edit =
    LogsNumEdited int
  | LogLevelPicked nat
  | LanguagePicked nat
  | ColorEdited string
  | ColorChosen "string option"
  | ConfidenceEdited real
  | BindNxmToggled bool

definition cb_pick :: "nat \<Rightarrow> combo_box \<Rightarrow> combo_box" where
  "cb_pick i b = (if i < length (cb_items b) then b\<lparr>cb_current := Some i\<rparr> else b)"

fun edit :: "(real \<Rightarrow> real) \<Rightarrow> app_settings \<Rightarrow> user_edit \<Rightarrow> app_settings" where
  "edit rnd p (LogsNumEdited n) = p\<lparr>logs_num_box := sb_setValue n (logs_num_box p)\<rparr>"
| "edit rnd p (LogLevelPicked i) = p\<lparr>log_level_box := cb_pick i (log_level_box p)\<rparr>"
| "edit rnd p (LanguagePicked i) = p\<lparr>app_lang_box := cb_pick i (app_lang_box p)\<rparr>"
| "edit rnd p (ColorEdited c) = p\<lparr>accent_color_entry := c\<rparr>"
| "edit rnd p (ColorChosen None) = p"
| "edit rnd p (ColorChosen (Some c)) = p\<lparr>accent_color_entry := c\<rparr>"
| "edit rnd p (ConfidenceEdited x) = p\<lparr>confidence_box := dsb_setValue rnd x (confidence_box p)\<rparr>"
| "edit rnd p (BindNxmToggled b) = p\<lparr>bind_nxm_checkbox := b\<rparr>"

text \<open>\<open>AppSettings.get_settings\<close>: the dictionary, in the order of the literal.\<close>

datatype setting = SInt int | SStr string | SFloat real | SBool bool

definition get_settings :: "app_settings \<Rightarrow> (string \<times> setting) list" where
  "get_settings p =
     [(''keep_logs_num'', SInt (sb_value (logs_num_box p))),
      (''log_level'', SStr (lower (cb_currentText (log_level_box p)))),
      (''language'', SStr (cb_currentText (app_lang_box p))),
      (''accent_color'', SStr (accent_color_entry p)),
      (''detector_confidence'', SFloat (dsb_value (confidence_box p))),
      (''auto_bind_nxm'', SBool (bind_nxm_checkbox p))]"

text \<open>
  What the widgets guarantee: the ranges set by the constructor, and the two numbers
  within them.
\<close>

definition panel_inv :: "app_settings \<Rightarrow> bool" where
  "panel_inv p =
     (sb_minimum (logs_num_box p) = - 1 \<and> sb_maximum (logs_num_box p) = 100
      \<and> - 1 \<le> sb_value (logs_num_box p) \<and> sb_value (logs_num_box p) \<le> 100
      \<and> dsb_minimum (confidence_box p) = 0 \<and> dsb_maximum (confidence_box p) = 1
      \<and> 0 \<le> dsb_value (confidence_box p) \<and> dsb_value (confidence_box p) \<le> 1)"

section \<open>The audio translation editor (translation_audio/audio_editor.py)\<close>

subsection \<open>Changing the file system\<close>

text \<open>
  \<open>put p v t\<close> replaces (\<open>Some\<close>) or removes (\<open>None\<close>) the entry at \<open>p\<close> when the parent of
  \<open>p\<close> is a directory of \<open>t\<close>, and leaves \<open>t\<close> alone otherwise.
\<close>

fun put :: "path \<Rightarrow> node option \<Rightarrow> node \<Rightarrow> node" where
  "put [] v t = t"
| "put (x # xs) v (File c) = File c"
| "put [x] v (Dir es) =
     Dir (case v of None \<Rightarrow> AList.delete x es | Some n \<Rightarrow> AList.update x n es)"
| "put (x # y # ys) v (Dir es) =
     (case map_of es x of
        None \<Rightarrow> Dir es
      | Some c \<Rightarrow> Dir (AList.update x (put (y # ys) v c) es))"

text \<open>
  What is at a path: nothing (\<open>None\<close>), a directory (\<open>Some None\<close>) or a file with its
  content.
\<close>

definition stat :: "node \<Rightarrow> path \<Rightarrow> content option option" where
  "stat t p = map_option (\<lambda>n. case n of File c \<Rightarrow> Some c | Dir es \<Rightarrow> None) (lookup t p)"

text \<open>\<open>p.unlink()\<close>: only a file can be unlinked.\<close>

definition unlink :: "node \<Rightarrow> path \<Rightarrow> py_error + node" where
  "unlink t p = (if is_file t p then Inr (put p None t) else Inl OSError)"

text \<open>\<open>shutil.rmtree(p)\<close> on a directory.\<close>

definition rmtree :: "node \<Rightarrow> path \<Rightarrow> node" where
  "rmtree t p = put p None t"

text \<open>
  \<open>p.mkdir(parents=True, exist_ok=True)\<close>: the missing directories of \<open>p\<close> are created;
  a file on the way, or at \<open>p\<close>, is an error, and then nothing is created.
\<close>

fun mkdirs :: "path \<Rightarrow> node \<Rightarrow> py_error + node" where
  "mkdirs p (File c) = Inl OSError"
| "mkdirs [] (Dir es) = Inr (Dir es)"
| "mkdirs (x # xs) (Dir es) =
     (case mkdirs xs (case map_of es x of Some c \<Rightarrow> c | None \<Rightarrow> Dir []) of
        Inl e \<Rightarrow> Inl e
      | Inr c' \<Rightarrow> Inr (Dir (AList.update x c' es)))"

text \<open>
  \<open>p.mkdir(exist_ok=True)\<close>: nothing to do for a directory; an error when \<open>p\<close> is a file
  or its parent is no directory.
\<close>

definition mkdir :: "node \<Rightarrow> path \<Rightarrow> py_error + node" where
  "mkdir t p =
     (if is_dir t p then Inr t
      else if exists t p \<or> p = [] \<or> \<not> is_dir t (parent p) then Inl OSError
      else Inr (put p (Some (Dir [])) t))"

text \<open>
  \<open>shutil.copy(src, dst)\<close>: the source must be a file; a destination that is a directory
  receives the file under the source's name; the place written to must lie in a
  directory and be no directory itself.
\<close>

definition copy :: "node \<Rightarrow> path \<Rightarrow> path \<Rightarrow> py_error + node" where
  "copy t src dst =
     (case lookup t src of
        Some (File c) \<Rightarrow>
          (let target = (if is_dir t dst then joinpath dst (name src) else dst)
           in if target = [] \<or> is_dir t target \<or> \<not> is_dir t (parent target) then Inl OSError
              else Inr (put target (Some (File c)) t))
      | _ \<Rightarrow> Inl OSError)"

text \<open>
  \<open>os.walk(top)\<close>, top down: for every directory its path, its subdirectories and its
  other entries, the subdirectories visited in the order listed. What is no directory
  yields nothing. \<open>os.walk\<close> reads each directory when it gets there; \<open>os_walk\<close> reads the
  tree as it is at the call, which is the same as long as the loop's body writes nothing
  below \<open>top\<close>.
\<close>

fun walk :: "path \<Rightarrow> node \<Rightarrow> (path \<times> string list \<times> string list) list"
  and walk_entries :: "path \<Rightarrow> (string \<times> node) list \<Rightarrow> (path \<times> string list \<times> string list) list" where
  "walk rt (File c) = []"
| "walk rt (Dir es) =
     (rt, [n. (n, Dir ds) \<leftarrow> es], [n. (n, File c) \<leftarrow> es]) # walk_entries rt es"
| "walk_entries rt [] = []"
| "walk_entries rt ((n, c) # es) = walk (rt @ [n]) c @ walk_entries rt es"

definition os_walk :: "node \<Rightarrow> path \<Rightarrow> (path \<times> string list \<times> string list) list" where
  "os_walk t start = (case lookup t start of Some n \<Rightarrow> walk start n | None \<Rightarrow> [])"

text \<open>\<open>rt.relative_to(base)\<close>.\<close>

definition relative_to :: "path \<Rightarrow> path \<Rightarrow> py_error + path" where
  "relative_to rt base = (if prefix base rt then Inr (drop (length base) rt) else Inl ValueError)"

subsection \<open>External programs\<close>

text \<open>
  Running a command line is up to the programs installed: \<open>run cmd t\<close> is what the
  run does on the file system \<open>t\<close>, the exit code and the file system it leaves, or
  \<open>LaunchFailed\<close> when the program cannot be started (\<open>subprocess.run\<close> raises an
  \<open>OSError\<close> then). With \<open>check=True\<close> an exit code other than zero raises
  \<open>CalledProcessError\<close>. Every call is recorded in \<open>procs\<close>.
\<close>

datatype run_result = Exited int | LaunchFailed

type_synonym tools = "arg list \<Rightarrow> node \<Rightarrow> run_result \<times> node"

definition subprocess_run :: "tools \<Rightarrow> arg list \<Rightarrow> (world, unit) exn" where
  "subprocess_run run cmd w =
     (case run cmd (fs w) of
        (Exited rc, t) \<Rightarrow>
          (if rc = 0 then Inr () else Inl (CalledProcessError rc),
           w\<lparr>fs := t, procs := procs w @ [cmd]\<rparr>)
      | (LaunchFailed, t) \<Rightarrow> (Inl OSError, w\<lparr>procs := procs w @ [cmd]\<rparr>))"

text \<open>\<open>try: m except subprocess.CalledProcessError as e: h\<close>.\<close>

definition except_called_process_error ::
  "('s, 'a) exn \<Rightarrow> (int \<Rightarrow> ('s, 'a) exn) \<Rightarrow> ('s, 'a) exn" where
  "except_called_process_error m h s =
     (case m s of
        (Inl (CalledProcessError rc), s') \<Rightarrow> h rc s'
      | r \<Rightarrow> r)"

text \<open>The class's logger is a logger: a logging call records its message.\<close>

definition log_call :: "level \<Rightarrow> string \<Rightarrow> pyval list \<Rightarrow> (world, unit) exn" where
  "log_call lv m vs w = (Inr (), emit lv m vs w)"

definition lift :: "py_error + 'a \<Rightarrow> ('s, 'a) exn" where
  "lift r s = (r, s)"

subsection \<open>\<open>AudioTranslationEditor\<close>\<close>

text \<open>
  The editor holds the paths of the three programs. The host is what the machine
  provides: the programs' behaviour and the directory of the module,
  \<open>Path(__file__).parent\<close>.
\<close>

record editor =
  bsarch_path :: path
  bmlfuzdecode_path :: path
  xwmaencode_path :: path

record host =
  tools_of :: tools
  script_dir :: path

definition delete_file :: "path \<Rightarrow> (world, unit) exn" where
  "delete_file file_path w =
     (case unlink (fs w) file_path of
        Inr t \<Rightarrow> log_call INFO ''Deleted {file_path}'' [VPath file_path] (w\<lparr>fs := t\<rparr>)
      | Inl e \<Rightarrow>
          log_call ERROR ''An error occurred while deleting {file_path}: {e}''
            [VPath file_path, VExc e] w)"

text \<open>What \<open>delete_file\<close> does to the file system.\<close>

definition removed :: "path \<Rightarrow> node \<Rightarrow> node" where
  "removed q t = (if is_file t q then put q None t else t)"

definition convert_xwm :: "editor \<Rightarrow> host \<Rightarrow> path \<Rightarrow> (world, unit) exn" where
  "convert_xwm ed h file_path =
     bind (lift (with_suffix file_path ''.wav'')) (\<lambda>wav_file.
     bind (except_called_process_error
             (bind (subprocess_run (tools_of h)
                      [P (xwmaencode_path ed), P file_path, P wav_file]) (\<lambda>u.
              log_call INFO ''Successfully converted {file_path} to {wav_file}''
                [VPath file_path, VPath wav_file]))
             (\<lambda>rc. log_call ERROR
                ''An error occurred while converting {file_path} to {wav_file}: {e}''
                [VPath file_path, VPath wav_file, VExc (CalledProcessError rc)])) (\<lambda>u.
     delete_file file_path))"

definition decode_fuz :: "editor \<Rightarrow> host \<Rightarrow> path \<Rightarrow> (world, unit) exn" where
  "decode_fuz ed h file_path =
     bind (except_called_process_error
             (bind (subprocess_run (tools_of h) [P (bmlfuzdecode_path ed), P file_path]) (\<lambda>u.
              log_call INFO ''Successfully decoded {file_path} to .xwm'' [VPath file_path]))
             (\<lambda>rc. log_call ERROR ''An error occurred while decoding {file_path}: {e}''
                [VPath file_path, VExc (CalledProcessError rc)])) (\<lambda>u.
     bind (lift (with_suffix file_path ''.xwm'')) (\<lambda>xwm_file.
     bind (\<lambda>w. if exists (fs w) xwm_file then convert_xwm ed h xwm_file w else (Inr (), w)) (\<lambda>u.
     bind (delete_file file_path) (\<lambda>u.
     bind (lift (with_suffix file_path ''.lip'')) (\<lambda>lip_file.
     (\<lambda>w. if exists (fs w) lip_file then delete_file lip_file w else (Inr (), w)))))))"

text \<open>
  \<open>find_bsa_file\<close>: the name of the first entry of the mod directory whose suffix is
  \<open>.bsa\<close> in any case; \<open>iterdir\<close> raises when the path is no directory.
\<close>

definition find_bsa_file :: "path \<Rightarrow> (world, string option) exn" where
  "find_bsa_file mod_path w =
     (case lookup (fs w) mod_path of
        Some (Dir es) \<Rightarrow>
          (Inr (find (\<lambda>n. lower (suffix_of (joinpath mod_path n)) = ''.bsa'') (map fst es)), w)
      | _ \<Rightarrow> (Inl OSError, w))"

text \<open>
  \<open>find_audio_files\<close>. The inner loop's body for one file name of the directory \<open>rt\<close>;
  the local variable \<open>audio_files_path\<close> goes in and out.
\<close>

definition is_audio :: "string \<Rightarrow> bool" where
  "is_audio file = (endswith (lower file) ''.fuz'' \<or> endswith (lower file) ''.xwm'')"

definition copy_audio_file :: "path \<Rightarrow> path \<Rightarrow> path \<Rightarrow> string \<Rightarrow> path option \<Rightarrow> (world, path option) exn" where
  "copy_audio_file extract_destination mod_path rt file audio_files_path =
     (if is_audio file then
        bind (lift (relative_to rt mod_path)) (\<lambda>rel.
        bind (\<lambda>w. case mkdirs (extract_destination @ rel) (fs w) of
                     Inl e \<Rightarrow> (Inl e, w)
                   | Inr t \<Rightarrow> (Inr (), w\<lparr>fs := t\<rparr>)) (\<lambda>u.
        bind (\<lambda>w. case copy (fs w) (joinpath rt file)
                          (joinpath (extract_destination @ rel) file) of
                     Inl e \<Rightarrow> (Inl e, w)
                   | Inr t \<Rightarrow> (Inr (), w\<lparr>fs := t\<rparr>)) (\<lambda>u.
        bind (log_call INFO ''Copied {Path(root) / file} to {destination_path / file}''
                [VPath (joinpath rt file), VPath (joinpath (extract_destination @ rel) file)]) (\<lambda>u.
        ret (if audio_files_path = None then Some rt else audio_files_path)))))
      else ret audio_files_path)"

fun copy_audio_files :: "path \<Rightarrow> path \<Rightarrow> path \<Rightarrow> string list \<Rightarrow> path option \<Rightarrow> (world, path option) exn" where
  "copy_audio_files dest mod_path rt [] afp = ret afp"
| "copy_audio_files dest mod_path rt (file # files) afp =
     bind (copy_audio_file dest mod_path rt file afp) (\<lambda>afp'.
     copy_audio_files dest mod_path rt files afp')"

fun copy_audio_tree ::
  "path \<Rightarrow> path \<Rightarrow> (path \<times> string list \<times> string list) list \<Rightarrow> path option \<Rightarrow> (world, path option) exn" where
  "copy_audio_tree dest mod_path [] afp = ret afp"
| "copy_audio_tree dest mod_path ((rt, dirs, files) # rest) afp =
     bind (copy_audio_files dest mod_path rt files afp) (\<lambda>afp'.
     copy_audio_tree dest mod_path rest afp')"

definition find_audio_files :: "host \<Rightarrow> path \<Rightarrow> (world, path option) exn" where
  "find_audio_files h mod_path =
     (let extract_destination = joinpath (script_dir h) ''extracted_files'' in
      bind (\<lambda>w. case mkdir (fs w) extract_destination of
                   Inl e \<Rightarrow> (Inl e, w)
                 | Inr t \<Rightarrow> (Inr (), w\<lparr>fs := t\<rparr>)) (\<lambda>u.
      bind (\<lambda>w. copy_audio_tree extract_destination mod_path (os_walk (fs w) mod_path) None w)
        (\<lambda>audio_files_path.
      ret (case audio_files_path of Some a \<Rightarrow> Some extract_destination | None \<Rightarrow> None))))"

text \<open>
  The first statement of \<open>extract_bsa\<close> on the file system: a workspace that is a
  directory is removed. In \<open>extract_bsa\<close>, \<open>if bsa_file:\<close> is false for \<open>None\<close> and for the
  empty string; \<open>no_archive\<close> is the \<open>else\<close> branch.
\<close>

definition reset :: "path \<Rightarrow> node \<Rightarrow> node" where
  "reset dest t = (if is_dir t dest then rmtree t dest else t)"

definition extract_bsa :: "editor \<Rightarrow> host \<Rightarrow> path \<Rightarrow> (world, path option) exn" where
  "extract_bsa ed h mod_path =
     (let extract_destination = joinpath (script_dir h) ''extracted_files'';
          no_archive =
            bind (find_audio_files h mod_path) (\<lambda>extracted_folder.
            case extracted_folder of
              Some f \<Rightarrow>
                bind (log_call INFO ''Found .fuz or .xwm files in {extracted_folder}''
                        [VPath f]) (\<lambda>u.
                ret (Some f))
            | None \<Rightarrow>
                bind (log_call ERROR ''No .bsa or .fuz/.xwm files found in {mod_path}''
                        [VPath mod_path]) (\<lambda>u.
                ret None))
      in
      bind (\<lambda>w. if exists (fs w) extract_destination \<and> is_dir (fs w) extract_destination
                 then log_call INFO ''Removed existing directory: {extract_destination}''
                        [VPath extract_destination]
                        (w\<lparr>fs := rmtree (fs w) extract_destination\<rparr>)
                 else (Inr (), w)) (\<lambda>u.
      bind (find_bsa_file mod_path) (\<lambda>found.
      case found of
        None \<Rightarrow> no_archive
      | Some bsa_file \<Rightarrow>
          if bsa_file = [] then no_archive
          else
            bind (\<lambda>w. case mkdir (fs w) extract_destination of
                         Inl e \<Rightarrow> (Inl e, w)
                       | Inr t \<Rightarrow> (Inr (), w\<lparr>fs := t\<rparr>)) (\<lambda>u.
            except_called_process_error
              (bind (subprocess_run (tools_of h)
                       [P (bsarch_path ed), S ''unpack'', P (joinpath mod_path bsa_file),
                        P extract_destination]) (\<lambda>u.
               bind (log_call INFO
                       ''Successfully extracted {bsa_file} to {extract_destination}''
                       [VStr bsa_file, VPath extract_destination]) (\<lambda>u.
               ret (Some extract_destination))))
              (\<lambda>rc.
               bind (log_call ERROR ''An error occurred while extracting {bsa_file}: {e}''
                       [VStr bsa_file, VExc (CalledProcessError rc)]) (\<lambda>u.
               ret None))))))"

text \<open>
  A well-formed directory tree: the names in every directory are distinct.
\<close>

fun wf_node :: "node \<Rightarrow> bool" and wf_entries :: "(string \<times> node) list \<Rightarrow> bool" where
  "wf_node (File c) = True"
| "wf_node (Dir es) = (distinct (map fst es) \<and> wf_entries es)"
| "wf_entries [] = True"
| "wf_entries ((n, c) # es) = (wf_node c \<and> wf_entries es)"

text \<open>
  The loop invariant of \<open>find_audio_files\<close>, for the mod directory's tree \<open>m\<close>: the mod
  directory still holds \<open>m\<close>, the workspace is a directory, and whatever exists in the
  workspace is what \<open>m\<close> has at the same relative path. An item of the walk is sound
  when it names a directory of \<open>m\<close> and files of that directory.
\<close>

definition mirror :: "node \<Rightarrow> path \<Rightarrow> path \<Rightarrow> node \<Rightarrow> bool" where
  "mirror m mod_path dest t =
     ((\<forall>x. stat t (mod_path @ x) = stat m x)
      \<and> (\<forall>x. stat t (dest @ x) \<noteq> None \<longrightarrow> stat t (dest @ x) = stat m x)
      \<and> stat t dest = Some None)"

definition sound_item :: "node \<Rightarrow> path \<Rightarrow> path \<times> string list \<times> string list \<Rightarrow> bool" where
  "sound_item m mod_path it =
     (case it of (rt, ds, fls) \<Rightarrow>
        \<exists>q es. rt = mod_path @ q \<and> lookup m q = Some (Dir es)
               \<and> (\<forall>f\<in>set fls. \<exists>c. map_of es f = Some (File c)))"

subsection \<open>A localisation root for the examples\<close>

text \<open>
  A localisation root \<open>loc\<close> with the languages \<open>en_US\<close> (two localisation files and a
  text file) and \<open>de_DE\<close> (no files), a plain file \<open>ab_cd\<close> and a directory \<open>12_34\<close>. On
  the example platform the user's language identifier is 0x1000, the identifier of a
  custom locale, which \<open>locale.windows_locale\<close> does not list.
\<close>

definition example_tree :: node where
  "example_tree =
     Dir [(''loc'',
           Dir [(''en_US'',
                 Dir [(''main.json'', File (Json [(''hello'', ''Hello'')])),
                      (''about.json'', File (Json [(''title'', ''About''), (''log'', ''Log'')])),
                      (''notes.txt'', File (Data ''todo''))]),
                (''de_DE'', Dir []),
                (''ab_cd'', File (Data ''x'')),
                (''12_34'', Dir [])])]"

definition example_world :: world where
  "example_world = \<lparr>fs = example_tree, logged = [], procs = []\<rparr>"

definition example_platform :: platform where
  "example_platform =
     \<lparr>lang_id = Inr 4096,
      windows_locale =
        (\<lambda>i. if i = 1031 then Some ''de_DE'' else if i = 1033 then Some ''en_US'' else None)\<rparr>"

subsection \<open>An installation for the examples\<close>

text \<open>
  The editor's three programs, a disk with the application (and the workspace of an
  earlier run) and three mods: one with an archive, one with loose voice files three
  directories deep, one with neither.
\<close>

definition example_editor :: editor where
  "example_editor =
     \<lparr>bsarch_path = [''tools'', ''bsarch.exe''],
      bmlfuzdecode_path = [''tools'', ''BmlFuzDecode.exe''],
      xwmaencode_path = [''tools'', ''xWMAEncode.exe'']\<rparr>"

definition example_disk :: node where
  "example_disk =
     Dir [(''app'', Dir [(''extracted_files'', Dir [(''old.wav'', File (Data ''o''))])]),
          (''mods'',
           Dir [(''m1'', Dir [(''readme.txt'', File (Data ''r'')),
                              (''Voices.BSA'', File (Data ''b''))]),
                (''m2'', Dir [(''sound'',
                               Dir [(''voice'',
                                     Dir [(''npc'',
                                           Dir [(''a.fuz'', File (Data ''A'')),
                                                (''a.lip'', File (Data ''L'')),
                                                (''b.XWM'', File (Data ''B''))])])]),
                              (''x.txt'', File (Data ''x''))]),
                (''m3'', Dir [(''x.txt'', File (Data ''x''))])])]"

definition example_machine :: world where
  "example_machine = \<lparr>fs = example_disk, logged = [], procs = []\<rparr>"

text \<open>A host whose programs all end with the exit code \<open>rc\<close> and change nothing.\<close>

definition example_host :: "int \<Rightarrow> host" where
  "example_host rc = \<lparr>tools_of = (\<lambda>cmd t. (Exited rc, t)), script_dir = [''app'']\<rparr>"

text \<open>
  A host whose decoder, run on \<open>a.fuz\<close> of the second mod, writes the companion
  \<open>a.xwm\<close> and ends with the exit code 0; every other run ends as \<open>enc\<close> says and
  changes nothing.
\<close>

definition example_decoding_host :: "run_result \<Rightarrow> host" where
  "example_decoding_host enc =
     \<lparr>tools_of =
        (\<lambda>cmd t.
           if cmd = [P [''tools'', ''BmlFuzDecode.exe''],
                     P [''mods'', ''m2'', ''sound'', ''voice'', ''npc'', ''a.fuz'']]
           then (Exited 0,
                 put [''mods'', ''m2'', ''sound'', ''voice'', ''npc'', ''a.xwm'']
                   (Some (File (Data ''X''))) t)
           else (enc, t)),
      script_dir = [''app'']\<rparr>"

text \<open>
  A host whose extractor looks at the disk: when the archive of the first mod is there
  and the workspace is an empty directory, it writes one voice file into the workspace
  and ends with the exit code 0; otherwise it ends with the exit code 2.
\<close>

definition example_unpacking_host :: host where
  "example_unpacking_host =
     \<lparr>tools_of =
        (\<lambda>cmd t.
           if is_file t [''mods'', ''m1'', ''Voices.BSA'']
              \<and> lookup t [''app'', ''extracted_files''] = Some (Dir [])
           then (Exited 0,
                 put [''app'', ''extracted_files'', ''v.fuz''] (Some (File (Data ''V''))) t)
           else (Exited 2, t)),
      script_dir = [''app'']\<rparr>"

subsection \<open>What the specification says of \<open>get_available_langs\<close>\<close>

text \<open>
  The specification's reading of the pattern: the directories next to the language
  path whose names are two letters, an underscore and two letters.
\<close>

definition is_letter :: "char \<Rightarrow> bool" where
  "is_letter c = (c \<in> set ''ABCDEFGHIJKLMNOPQRSTUVWXYZabcdefghijklmnopqrstuvwxyz'')"

definition lang_shaped :: "string \<Rightarrow> bool" where
  "lang_shaped n =
     (case n of
        [a, b, u, c, d] \<Rightarrow> is_letter a \<and> is_letter b \<and> u = CHR ''_'' \<and> is_letter c \<and> is_letter d
      | _ \<Rightarrow> False)"

definition spec_available_langs :: "node \<Rightarrow> path \<Rightarrow> string list" where
  "spec_available_langs t loc_root =
     filter (\<lambda>n. lang_shaped n \<and> is_dir t (joinpath loc_root n)) (listdir t loc_root)"

section \<open>Properties of the localisation\<close>

lemmas loc_defs = bind_def ret_def raise_def try_except_def on_world_def self_attr_def assign_def
  self_log_def get_parent_def truediv_def call_is_dir_def call_glob_def
  localisator_getattribute_def object_getattribute_def


subsection \<open>The system language cannot be resolved\<close>

lemma load_lang_resolution_failure:
  assumes "map_of self ''language'' = Some (VStr ''System'')"
    and "map_of self ''log'' = Some VLogger"
    and "map_of self ''lang_path'' = Some (VPath p)"
    and "resolve pf = Inl ex"
  shows "load_lang pf (self, w) =
           (Inl UnboundLocalError,
            (AList.update ''language'' (VStr ''en _US'') self,
             emit ERROR ''Failed to get system language: {ex}'' [VExc ex] w))"
  using assms
  by (simp add: load_lang_def detect_system_language_def on_failure_def loc_defs update_conv')

lemma example_resolve: "resolve example_platform = Inl KeyError"
  by (simp add: resolve_def example_platform_def)

text \<open>
  C3. The claim: when the language is \<open>System\<close> and resolving the platform's locale
  raises, \<open>load_lang\<close> falls back to a hard-coded tag and continues without raising.
  The code does not: for a Localisator as its constructor leaves it (the logger in
  \<open>log\<close>, a path in \<open>lang_path\<close>) with the language \<open>System\<close>, whenever the resolution
  raises, the handler's last statement reads the unbound local \<open>system_language\<close> and
  \<open>load_lang\<close> raises \<open>UnboundLocalError\<close> to its caller.
\<close>

theorem load_lang_system_failure_raises:
  assumes "map_of self ''language'' = Some (VStr ''System'')"
    and "map_of self ''log'' = Some VLogger"
    and "map_of self ''lang_path'' = Some (VPath p)"
    and "resolve pf = Inl ex"
  shows "fst (load_lang pf (self, w)) = Inl UnboundLocalError"
  using load_lang_resolution_failure[OF assms] by simp

theorem load_lang_system_failure_raises_witness:
  "map_of (init ''System'' [''loc'']) ''language'' = Some (VStr ''System'')
   \<and> map_of (init ''System'' [''loc'']) ''log'' = Some VLogger
   \<and> map_of (init ''System'' [''loc'']) ''lang_path'' = Some (VPath [''loc'', ''System''])
   \<and> resolve example_platform = Inl KeyError
   \<and> fst (load_lang example_platform (init ''System'' [''loc''], example_world))
       = Inl UnboundLocalError"
proof -
  have h1: "map_of (init ''System'' [''loc'']) ''language'' = Some (VStr ''System'')"
    and h2: "map_of (init ''System'' [''loc'']) ''log'' = Some VLogger"
    and h3: "map_of (init ''System'' [''loc'']) ''lang_path'' = Some (VPath [''loc'', ''System''])"
    by (simp_all add: init_def joinpath_def)
  from load_lang_system_failure_raises[where w = example_world, OF h1 h2 h3 example_resolve]
    h1 h2 h3 example_resolve
  show ?thesis by blast
qed

text \<open>
  C10. When the language is \<open>System\<close> and locale resolution raises, \<open>load_lang\<close> is not
  atomic: the call ends in an exception, and in the state it leaves behind the
  \<open>language\<close> attribute is the literal \<open>en _US\<close>, with a space inside, and no longer
  what it was before the call.
\<close>

theorem load_lang_failure_overwrites_language:
  assumes "map_of self ''language'' = Some (VStr ''System'')"
    and "map_of self ''log'' = Some VLogger"
    and "map_of self ''lang_path'' = Some (VPath p)"
    and "resolve pf = Inl ex"
  shows "(case load_lang pf (self, w) of
            (r, (self', w')) \<Rightarrow>
              r = Inl UnboundLocalError
              \<and> map_of self' ''language'' = Some (VStr ''en _US'')
              \<and> map_of self' ''language'' \<noteq> map_of self ''language''
              \<and> CHR '' '' \<in> set ''en _US'')"
  using load_lang_resolution_failure[OF assms] assms(1) by (simp add: update_conv')

theorem load_lang_failure_overwrites_language_witness:
  "map_of (init ''System'' [''loc'']) ''language'' = Some (VStr ''System'')
   \<and> map_of (init ''System'' [''loc'']) ''log'' = Some VLogger
   \<and> map_of (init ''System'' [''loc'']) ''lang_path'' = Some (VPath [''loc'', ''System''])
   \<and> resolve example_platform = Inl KeyError
   \<and> (case load_lang example_platform (init ''System'' [''loc''], example_world) of
         (r, (self', w')) \<Rightarrow>
           r = Inl UnboundLocalError
           \<and> map_of self' ''language'' = Some (VStr ''en _US'')
           \<and> map_of self' ''language'' \<noteq> map_of (init ''System'' [''loc'']) ''language''
           \<and> CHR '' '' \<in> set ''en _US'')"
proof -
  have h1: "map_of (init ''System'' [''loc'']) ''language'' = Some (VStr ''System'')"
    and h2: "map_of (init ''System'' [''loc'']) ''log'' = Some VLogger"
    and h3: "map_of (init ''System'' [''loc'']) ''lang_path'' = Some (VPath [''loc'', ''System''])"
    by (simp_all add: init_def joinpath_def)
  from load_lang_failure_overwrites_language[where w = example_world, OF h1 h2 h3 example_resolve]
    h1 h2 h3 example_resolve
  show ?thesis by blast
qed

subsection \<open>The language's directory does not exist\<close>



lemma setattr_all_other:
  "setattr_all d kvs = (r, d') \<Longrightarrow> n \<notin> fst ` set kvs \<Longrightarrow> map_of d' n = map_of d n"
  by (induction d kvs rule: setattr_all.induct)
     (auto simp: py_setattr_def update_conv' split: if_splits sum.splits)







subsection \<open>The available languages\<close>

lemma lower_char_underscore: "lower_char c = CHR ''_'' \<longleftrightarrow> c = CHR ''_''"
  by (simp add: lower_char_def)

lemma wild_lang: "wild ''??_??'' m \<longleftrightarrow> length m = 5 \<and> m ! 2 = CHR ''_''"
proof (cases m)
  case Nil then show ?thesis by simp
next
  case (Cons a m1) 
  show ?thesis
  proof (cases m1)
    case Nil with Cons show ?thesis by simp
  next
    case (Cons b m2)
    note c2 = this
    show ?thesis
    proof (cases m2)
      case Nil with c2 \<open>m = a # m1\<close> show ?thesis by simp
    next
      case (Cons c m3)
      note c3 = this
      show ?thesis
      proof (cases m3)
        case Nil with c2 c3 \<open>m = a # m1\<close> show ?thesis by simp
      next
        case (Cons d m4)
        note c4 = this
        show ?thesis
        proof (cases m4)
          case Nil with c2 c3 c4 \<open>m = a # m1\<close> show ?thesis by simp
        next
          case (Cons e m5)
          with c2 c3 c4 \<open>m = a # m1\<close> show ?thesis by (cases m5) auto
        qed
      qed
    qed
  qed
qed

lemma fnmatch_lang: "fnmatch n ''??_??'' \<longleftrightarrow> length n = 5 \<and> n ! 2 = CHR ''_''"
proof -
  have "lower ''??_??'' = ''??_??''" by (simp add: lower_def lower_char_def)
  then have "fnmatch n ''??_??'' \<longleftrightarrow> length (lower n) = 5 \<and> lower n ! 2 = CHR ''_''"
    by (simp add: fnmatch_def wild_lang)
  also have "\<dots> \<longleftrightarrow> length n = 5 \<and> n ! 2 = CHR ''_''"
    by (auto simp: lower_def lower_char_underscore)
  finally show ?thesis .
qed

lemma name_joinpath: "name (joinpath p n) = n"
  by (simp add: name_def joinpath_def)

text \<open>
  C9, as amended. \<open>get_available_langs\<close> returns, in enumeration order, the name of
  every entry beside the language path, file or directory, whose name has five
  characters with an underscore in the middle; the other four may be any characters.
\<close>

theorem get_available_langs_any_entry:
  assumes "map_of self ''lang_path'' = Some (VPath p)"
  shows "get_available_langs (self, w) =
           (Inr (filter (\<lambda>n. length n = 5 \<and> n ! 2 = CHR ''_'') (listdir (fs w) (parent p))),
            (self, w))"
  using assms
  by (simp add: get_available_langs_def loc_defs glob_def fnmatch_lang comp_def name_joinpath)

theorem get_available_langs_any_entry_witness:
  "map_of (init ''en_US'' [''loc'']) ''lang_path'' = Some (VPath [''loc'', ''en_US''])
   \<and> get_available_langs (init ''en_US'' [''loc''], example_world) =
       (Inr [''en_US'', ''de_DE'', ''ab_cd'', ''12_34''], (init ''en_US'' [''loc''], example_world))"
proof -
  have h: "map_of (init ''en_US'' [''loc'']) ''lang_path'' = Some (VPath [''loc'', ''en_US''])"
    by (simp add: init_def joinpath_def)
  have "filter (\<lambda>n. length n = 5 \<and> n ! 2 = CHR ''_'')
          (listdir (fs example_world) (parent [''loc'', ''en_US'']))
        = [''en_US'', ''de_DE'', ''ab_cd'', ''12_34'']"
    by (simp add: listdir_def parent_def example_world_def example_tree_def)
  with get_available_langs_any_entry[OF h, of example_world] h show ?thesis by simp
qed

text \<open>
  C9, as the claim states it, fails: in the example root the plain file \<open>ab_cd\<close> and
  the directory \<open>12_34\<close> are returned, although the one is no directory and the other
  has no letters.
\<close>

theorem get_available_langs_counterexample:
  "fst (get_available_langs (init ''en_US'' [''loc''], example_world))
     = Inr [''en_US'', ''de_DE'', ''ab_cd'', ''12_34'']
   \<and> spec_available_langs (fs example_world) [''loc''] = [''en_US'', ''de_DE'']
   \<and> is_file (fs example_world) [''loc'', ''ab_cd'']
   \<and> \<not> lang_shaped ''12_34''"
  by code_simp

subsection \<open>Looking up what is not there\<close>

text \<open>
  C6, as amended. On a section whose \<open>log\<close> attribute is the logger, the lookup of a
  name that the section does not define (no loaded key, none of the section's own
  attributes, no member of its class) returns the name itself, does not raise, and
  logs exactly one warning.
\<close>

theorem section_lookup_miss:
  assumes "object_getattribute section_class d n = None"
    and "map_of d ''log'' = Some VLogger"
  shows "section_getattribute d n w =
           (Inr (VStr n),
            w\<lparr>logged := logged w @
                 [(WARNING, ''Missing localisation for {__name!r} in {self!r}!'',
                   [VStr n, VStr (section_repr d)])]\<rparr>)"
  using assms by (simp add: emit_def)

theorem section_lookup_miss_witness:
  "object_getattribute section_class
      [(''log'', VLogger), (''_name'', VStr ''main.json''),
       (''__getattribute__'', VAttr ''__getattribute__''), (''hello'', VStr ''Hello'')]
      ''goodbye'' = None
   \<and> map_of [(''log'', VLogger), (''_name'', VStr ''main.json''),
       (''__getattribute__'', VAttr ''__getattribute__''), (''hello'', VStr ''Hello'')] ''log''
       = Some VLogger
   \<and> section_getattribute
        [(''log'', VLogger), (''_name'', VStr ''main.json''),
         (''__getattribute__'', VAttr ''__getattribute__''), (''hello'', VStr ''Hello'')]
        ''goodbye'' example_world
      = (Inr (VStr ''goodbye''),
         example_world\<lparr>logged :=
           [(WARNING, ''Missing localisation for {__name!r} in {self!r}!'',
             [VStr ''goodbye'', VStr ''main.json''])]\<rparr>)"
proof -
  let ?d = "[(''log'', VLogger), (''_name'', VStr ''main.json''),
       (''__getattribute__'', VAttr ''__getattribute__''), (''hello'', VStr ''Hello'')]"
  have h1: "object_getattribute section_class ?d ''goodbye'' = None"
    by (simp add: object_getattribute_def section_class_def object_members_def)
  have h2: "map_of ?d ''log'' = Some VLogger" by simp
  have r: "section_repr ?d = ''main.json''"
    by (simp add: section_repr_def object_getattribute_def)
  from section_lookup_miss[OF h1 h2, of example_world] h1 h2 r show ?thesis
    by (simp add: example_world_def)
qed

text \<open>
  C6, as the claim states it, fails twice. The file \<open>about.json\<close> of the example has a
  key \<open>log\<close>; loading it replaces the section's logger by a string, and the lookup of a
  missing name on that section raises \<open>AttributeError\<close>. And on the section of
  \<open>main.json\<close> the name \<open>log\<close>, which was not loaded into it, yields the logger, not
  the name, without a warning.
\<close>

theorem section_lookup_counterexample:
  "map_of (fst (snd (load_lang example_platform (init ''en_US'' [''loc''], example_world))))
      ''about''
     = Some (VSection [(''log'', VStr ''Log''), (''_name'', VStr ''about.json''),
               (''__getattribute__'', VAttr ''__getattribute__''), (''title'', VStr ''About'')])
   \<and> section_getattribute
        [(''log'', VStr ''Log''), (''_name'', VStr ''about.json''),
         (''__getattribute__'', VAttr ''__getattribute__''), (''title'', VStr ''About'')]
        ''goodbye'' example_world
      = (Inl AttributeError, example_world)
   \<and> map_of (fst (snd (load_lang example_platform (init ''en_US'' [''loc''], example_world))))
      ''main''
     = Some (VSection [(''log'', VLogger), (''_name'', VStr ''main.json''),
               (''__getattribute__'', VAttr ''__getattribute__''), (''hello'', VStr ''Hello'')])
   \<and> section_getattribute
        [(''log'', VLogger), (''_name'', VStr ''main.json''),
         (''__getattribute__'', VAttr ''__getattribute__''), (''hello'', VStr ''Hello'')]
        ''log'' example_world
      = (Inr VLogger, example_world)"
  by code_simp

section \<open>Properties of the settings panel\<close>

lemma bound_between: "lo \<le> hi \<Longrightarrow> lo \<le> bound lo hi v \<and> bound lo hi v \<le> hi"
  by (simp add: bound_def)

lemma panel_inv_init: "panel_inv (app_settings_init rnd log_levels langs cfg)"
  by (simp add: panel_inv_def app_settings_init_def sb_setValue_def sb_setRange_def
      dsb_setValue_def dsb_setRange_def new_spin_box_def new_double_spin_box_def Let_def
      bound_between)

lemma panel_inv_edit: "panel_inv p \<Longrightarrow> panel_inv (edit rnd p e)"
  by (cases "(rnd, p, e)" rule: edit.cases)
     (auto simp: panel_inv_def sb_setValue_def dsb_setValue_def bound_def)

lemma panel_inv_edits: "panel_inv p \<Longrightarrow> panel_inv (foldl (edit rnd) p es)"
  by (induction es arbitrary: p) (simp_all add: panel_inv_edit)

text \<open>
  C8. Whatever the configuration the panel was built from and whatever the user did to
  the widgets since, \<open>get_settings\<close> returns exactly the six keys \<open>keep_logs_num\<close>,
  \<open>log_level\<close>, \<open>language\<close>, \<open>accent_color\<close>, \<open>detector_confidence\<close> and
  \<open>auto_bind_nxm\<close>, with an integer between -1 and 100, three strings, a float
  between 0 and 1 and a boolean.
\<close>

theorem get_settings_six_typed_keys:
  "\<exists>k l g c d b.
     get_settings (foldl (edit rnd) (app_settings_init rnd log_levels langs cfg) es) =
       [(''keep_logs_num'', SInt k), (''log_level'', SStr l), (''language'', SStr g),
        (''accent_color'', SStr c), (''detector_confidence'', SFloat d),
        (''auto_bind_nxm'', SBool b)]
     \<and> - 1 \<le> k \<and> k \<le> 100 \<and> 0 \<le> d \<and> d \<le> 1"
  using panel_inv_edits[OF panel_inv_init, where rnd = rnd and rnd1 = rnd and es = es
      and cfg1 = cfg and langs1 = langs and log_levels1 = log_levels]
  by (simp add: get_settings_def panel_inv_def)

theorem get_settings_six_typed_keys_witness:
  "(\<exists>k l g c d b.
      get_settings (foldl (edit id)
         (app_settings_init id [''debug'', ''info''] [''en_US'', ''de_DE'']
            \<lparr>keep_logs_num = 500, log_level = ''info'', language = ''de_DE'',
             accent_color = ''#8197ec'', detector_confidence = 3 / 2, auto_bind_nxm = False\<rparr>)
         [LogsNumEdited (- 7), LogLevelPicked 0, ColorChosen (Some ''#ff0000''),
          BindNxmToggled True]) =
        [(''keep_logs_num'', SInt k), (''log_level'', SStr l), (''language'', SStr g),
         (''accent_color'', SStr c), (''detector_confidence'', SFloat d),
         (''auto_bind_nxm'', SBool b)]
      \<and> - 1 \<le> k \<and> k \<le> 100 \<and> 0 \<le> d \<and> d \<le> 1)
   \<and> get_settings (foldl (edit id)
         (app_settings_init id [''debug'', ''info''] [''en_US'', ''de_DE'']
            \<lparr>keep_logs_num = 500, log_level = ''info'', language = ''de_DE'',
             accent_color = ''#8197ec'', detector_confidence = 3 / 2, auto_bind_nxm = False\<rparr>)
         [LogsNumEdited (- 7), LogLevelPicked 0, ColorChosen (Some ''#ff0000''),
          BindNxmToggled True])
     = [(''keep_logs_num'', SInt (- 1)), (''log_level'', SStr ''debug''),
        (''language'', SStr ''de_DE''), (''accent_color'', SStr ''#ff0000''),
        (''detector_confidence'', SFloat 1), (''auto_bind_nxm'', SBool True)]"
proof (rule conjI)
  show "\<exists>k l g c d b.
      get_settings (foldl (edit id)
         (app_settings_init id [''debug'', ''info''] [''en_US'', ''de_DE'']
            \<lparr>keep_logs_num = 500, log_level = ''info'', language = ''de_DE'',
             accent_color = ''#8197ec'', detector_confidence = 3 / 2, auto_bind_nxm = False\<rparr>)
         [LogsNumEdited (- 7), LogLevelPicked 0, ColorChosen (Some ''#ff0000''),
          BindNxmToggled True]) =
        [(''keep_logs_num'', SInt k), (''log_level'', SStr l), (''language'', SStr g),
         (''accent_color'', SStr c), (''detector_confidence'', SFloat d),
         (''auto_bind_nxm'', SBool b)]
      \<and> - 1 \<le> k \<and> k \<le> 100 \<and> 0 \<le> d \<and> d \<le> 1"
    by (rule get_settings_six_typed_keys)
  show "get_settings (foldl (edit id)
         (app_settings_init id [''debug'', ''info''] [''en_US'', ''de_DE'']
            \<lparr>keep_logs_num = 500, log_level = ''info'', language = ''de_DE'',
             accent_color = ''#8197ec'', detector_confidence = 3 / 2, auto_bind_nxm = False\<rparr>)
         [LogsNumEdited (- 7), LogLevelPicked 0, ColorChosen (Some ''#ff0000''),
          BindNxmToggled True])
     = [(''keep_logs_num'', SInt (- 1)), (''log_level'', SStr ''debug''),
        (''language'', SStr ''de_DE''), (''accent_color'', SStr ''#ff0000''),
        (''detector_confidence'', SFloat 1), (''auto_bind_nxm'', SBool True)]"
    by (simp add: get_settings_def app_settings_init_def sb_setValue_def sb_setRange_def
        dsb_setValue_def dsb_setRange_def new_spin_box_def new_double_spin_box_def Let_def
        bound_def cb_setCurrentText_def cb_addItems_def new_combo_box_def cb_currentText_def
        cb_pick_def capitalize_def upper_char_def lower_def lower_char_def)
qed

section \<open>Properties of the audio translation editor\<close>

subsection \<open>The file system\<close>

lemma is_file_stat: "is_file t p \<longleftrightarrow> (\<exists>c. stat t p = Some (Some c))"
  by (auto simp: is_file_def stat_def split: option.splits node.splits)

lemma is_dir_stat: "is_dir t p \<longleftrightarrow> stat t p = Some None"
  by (auto simp: is_dir_def stat_def split: option.splits node.splits)

lemma exists_stat: "exists t p \<longleftrightarrow> stat t p \<noteq> None"
  by (auto simp: exists_def stat_def)

lemma stat_File: "stat (File c) q = (if q = [] then Some (Some c) else None)"
  by (cases q) (simp_all add: stat_def)

lemma stat_Nil_Dir: "stat (Dir es) [] = Some None"
  by (simp add: stat_def)

lemma stat_Cons_Dir:
  "stat (Dir es) (x # q) = (case map_of es x of None \<Rightarrow> None | Some c \<Rightarrow> stat c q)"
  by (simp add: stat_def split: option.splits)

lemma stat_put:
  "stat (put p v t) q =
     (if p \<noteq> [] \<and> stat t (butlast p) = Some None \<and> prefix p q
      then (case v of None \<Rightarrow> None | Some n \<Rightarrow> stat n (drop (length p) q))
      else stat t q)"
proof (induction p v t arbitrary: q rule: put.induct)
  case (1 v t)
  then show ?case by simp
next
  case (2 x xs v c)
  then show ?case by (simp add: stat_File)
next
  case (3 x v es)
  show ?case
    by (cases q) (auto simp: stat_Nil_Dir stat_Cons_Dir update_conv' delete_conv' split: option.splits)
next
  case (4 x y ys v es)
  show ?case
  proof (cases q)
    case Nil
    then show ?thesis by (simp add: stat_Nil_Dir split: option.splits)
  next
    case (Cons z q')
    then show ?thesis
      using 4
      by (auto simp: stat_Cons_Dir update_conv' split: option.splits)
  qed
qed

lemma lookup_append:
  "lookup t (p @ q) = (case lookup t p of None \<Rightarrow> None | Some n \<Rightarrow> lookup n q)"
  by (induction t p rule: lookup.induct) (auto split: option.splits)

lemma stat_append:
  "stat t (p @ q) = (case lookup t p of None \<Rightarrow> None | Some n \<Rightarrow> stat n q)"
  by (simp add: stat_def lookup_append split: option.splits)

lemma stat_parent:
  assumes "stat t q \<noteq> None" and "q \<noteq> []"
  shows "stat t (butlast q) = Some None"
proof -
  from assms(2) have q: "q = butlast q @ [last q]" by simp
  from assms(1) obtain n where n: "lookup t (butlast q) = Some n" and s: "stat n [last q] \<noteq> None"
    by (subst (asm) q) (auto simp: stat_append split: option.splits)
  from s obtain es where "n = Dir es" by (cases n) (auto simp: stat_File)
  with n show ?thesis by (simp add: stat_def)
qed

lemma with_suffix_nonempty: "with_suffix p s = Inr q \<Longrightarrow> q \<noteq> [] \<and> parent q = parent p \<and> endswith (name q) s"
  by (auto simp: with_suffix_def parent_def name_def endswith_def split: if_splits)

lemma with_suffix_name: "name p \<noteq> [] \<Longrightarrow> \<exists>q. with_suffix p s = Inr q"
  by (simp add: with_suffix_def)

lemma not_file_after_remove: "q \<noteq> [] \<Longrightarrow> \<not> is_file (put q None t) q"
  using stat_parent[of t q] by (auto simp: is_file_stat stat_put)

lemma file_before_remove: "is_file (put q None t) x \<Longrightarrow> is_file t x"
  by (auto simp: is_file_stat stat_put split: if_splits)

lemma delete_file_fs:
  "fst (delete_file q w) = Inr () \<and> fs (snd (delete_file q w)) = removed q (fs w)
   \<and> procs (snd (delete_file q w)) = procs w"
  by (simp add: delete_file_def unlink_def log_call_def emit_def removed_def)

lemma removed_not_file: "q \<noteq> [] \<Longrightarrow> \<not> is_file (removed q t) q"
  by (simp add: removed_def not_file_after_remove)

lemma removed_mono: "is_file (removed q t) x \<Longrightarrow> is_file t x"
  by (auto simp: removed_def file_before_remove split: if_splits)

lemma convert_xwm_exited:
  assumes "with_suffix p ''.wav'' = Inr wav"
    and "tools_of h [P (xwmaencode_path ed), P p, P wav] (fs w) = (Exited rc, t)"
  shows "fst (convert_xwm ed h p w) = Inr ()
       \<and> procs (snd (convert_xwm ed h p w)) = procs w @ [[P (xwmaencode_path ed), P p, P wav]]
       \<and> fs (snd (convert_xwm ed h p w)) = removed p t"
  using assms
  by (simp add: convert_xwm_def bind_def lift_def except_called_process_error_def
      subprocess_run_def log_call_def emit_def delete_file_def unlink_def removed_def)

text \<open>
  C1. For every input path that has a file name (\<open>wav\<close> is the path with the suffix
  \<open>.wav\<close>), whatever exit code \<open>rc\<close> the encoder ends with, zero or not:
  \<open>convert_xwm\<close> returns normally, has run the encoder exactly once, on the input and
  the \<open>.wav\<close> path beside it, and has then deleted the input: what was a file at the
  input path after the encoder's run is removed, and no file is left there.
\<close>

theorem convert_xwm_deletes_input:
  assumes "with_suffix p ''.wav'' = Inr wav"
    and "tools_of h [P (xwmaencode_path ed), P p, P wav] (fs w) = (Exited rc, t)"
  shows "fst (convert_xwm ed h p w) = Inr ()
       \<and> procs (snd (convert_xwm ed h p w)) = procs w @ [[P (xwmaencode_path ed), P p, P wav]]
       \<and> parent wav = parent p \<and> endswith (name wav) ''.wav''
       \<and> fs (snd (convert_xwm ed h p w)) = (if is_file t p then put p None t else t)
       \<and> \<not> is_file (fs (snd (convert_xwm ed h p w))) p"
proof -
  from assms(1) have "p \<noteq> []" by (auto simp: with_suffix_def name_def split: if_splits)
  with convert_xwm_exited[OF assms] with_suffix_nonempty[OF assms(1)] show ?thesis
    by (simp add: removed_not_file) (simp add: removed_def)
qed

lemma decode_fuz_exited:
  assumes "with_suffix p ''.xwm'' = Inr xwm" and "with_suffix p ''.lip'' = Inr lip"
    and "with_suffix xwm ''.wav'' = Inr wav"
    and "tools_of h [P (bmlfuzdecode_path ed), P p] (fs w) = (Exited rc, t1)"
    and "exists t1 xwm \<longrightarrow>
           tools_of h [P (xwmaencode_path ed), P xwm, P wav] t1 = (Exited rc2, t2)"
  shows "fst (decode_fuz ed h p w) = Inr ()
       \<and> procs (snd (decode_fuz ed h p w)) =
           procs w @ [P (bmlfuzdecode_path ed), P p]
             # (if exists t1 xwm then [[P (xwmaencode_path ed), P xwm, P wav]] else [])
       \<and> fs (snd (decode_fuz ed h p w)) =
           (let t3 = removed p (if exists t1 xwm then removed xwm t2 else t1)
            in if exists t3 lip then removed lip t3 else t3)"
proof -
  define w1 where "w1 = (if rc = 0
      then emit INFO ''Successfully decoded {file_path} to .xwm'' [VPath p]
             (w\<lparr>fs := t1, procs := procs w @ [[P (bmlfuzdecode_path ed), P p]]\<rparr>)
      else emit ERROR ''An error occurred while decoding {file_path}: {e}''
             [VPath p, VExc (CalledProcessError rc)]
             (w\<lparr>fs := t1, procs := procs w @ [[P (bmlfuzdecode_path ed), P p]]\<rparr>))"
  have w1: "fs w1 = t1" "procs w1 = procs w @ [[P (bmlfuzdecode_path ed), P p]]"
    by (simp_all add: w1_def emit_def)
  have s1: "except_called_process_error
             (bind (subprocess_run (tools_of h) [P (bmlfuzdecode_path ed), P p]) (\<lambda>u.
              log_call INFO ''Successfully decoded {file_path} to .xwm'' [VPath p]))
             (\<lambda>rc. log_call ERROR ''An error occurred while decoding {file_path}: {e}''
                [VPath p, VExc (CalledProcessError rc)]) w = (Inr (), w1)"
    using assms(4)
    by (simp add: except_called_process_error_def bind_def subprocess_run_def log_call_def w1_def)
  define w2 where "w2 = (if exists t1 xwm then snd (convert_xwm ed h xwm w1) else w1)"
  have c: "exists t1 xwm \<Longrightarrow> fst (convert_xwm ed h xwm w1) = Inr ()
       \<and> procs (snd (convert_xwm ed h xwm w1)) = procs w1 @ [[P (xwmaencode_path ed), P xwm, P wav]]
       \<and> fs (snd (convert_xwm ed h xwm w1)) = removed xwm t2"
    using convert_xwm_exited[OF assms(3), of h ed w1 rc2 t2] assms(5) w1 by simp
  have s2: "(\<lambda>w. if exists (fs w) xwm then convert_xwm ed h xwm w else (Inr (), w)) w1 = (Inr (), w2)"
    using c w1 by (auto simp: w2_def prod_eq_iff)
  have w2: "fs w2 = (if exists t1 xwm then removed xwm t2 else t1)"
    "procs w2 = procs w @ [P (bmlfuzdecode_path ed), P p]
             # (if exists t1 xwm then [[P (xwmaencode_path ed), P xwm, P wav]] else [])"
    using c w1 by (auto simp: w2_def)
  define w3 where "w3 = snd (delete_file p w2)"
  have s3: "delete_file p w2 = (Inr (), w3)"
    using delete_file_fs[of p w2] by (simp add: w3_def prod_eq_iff)
  have w3: "fs w3 = removed p (fs w2)" "procs w3 = procs w2"
    using delete_file_fs[of p w2] by (simp_all add: w3_def)
  define w4 where "w4 = (if exists (fs w3) lip then snd (delete_file lip w3) else w3)"
  have s4: "(\<lambda>w. if exists (fs w) lip then delete_file lip w else (Inr (), w)) w3 = (Inr (), w4)"
    using delete_file_fs[of lip w3] by (auto simp: w4_def prod_eq_iff)
  have w4: "fs w4 = (if exists (fs w3) lip then removed lip (fs w3) else fs w3)" "procs w4 = procs w3"
    using delete_file_fs[of lip w3] by (auto simp: w4_def)
  have "decode_fuz ed h p w = (Inr (), w4)"
    unfolding decode_fuz_def
    by (simp add: bind_def s1 lift_def assms(1) assms(2) s2 s3 s4)
  with w4 w3 w2 show ?thesis by (simp add: Let_def)
qed

theorem convert_xwm_deletes_input_witness:
  "with_suffix [''mods'', ''m2'', ''sound'', ''voice'', ''npc'', ''b.XWM''] ''.wav''
     = Inr [''mods'', ''m2'', ''sound'', ''voice'', ''npc'', ''b.wav'']
   \<and> tools_of (example_host 1)
        [P (xwmaencode_path example_editor),
         P [''mods'', ''m2'', ''sound'', ''voice'', ''npc'', ''b.XWM''],
         P [''mods'', ''m2'', ''sound'', ''voice'', ''npc'', ''b.wav'']] (fs example_machine)
       = (Exited 1, example_disk)
   \<and> is_file example_disk [''mods'', ''m2'', ''sound'', ''voice'', ''npc'', ''b.XWM'']
   \<and> fst (convert_xwm example_editor (example_host 1)
             [''mods'', ''m2'', ''sound'', ''voice'', ''npc'', ''b.XWM''] example_machine) = Inr ()
   \<and> \<not> is_file (fs (snd (convert_xwm example_editor (example_host 1)
             [''mods'', ''m2'', ''sound'', ''voice'', ''npc'', ''b.XWM''] example_machine)))
         [''mods'', ''m2'', ''sound'', ''voice'', ''npc'', ''b.XWM'']"
proof -
  have h1: "with_suffix [''mods'', ''m2'', ''sound'', ''voice'', ''npc'', ''b.XWM''] ''.wav''
     = Inr [''mods'', ''m2'', ''sound'', ''voice'', ''npc'', ''b.wav'']"
    by (simp add: with_suffix_def name_def suffix_of_def)
  have h2: "tools_of (example_host 1)
        [P (xwmaencode_path example_editor),
         P [''mods'', ''m2'', ''sound'', ''voice'', ''npc'', ''b.XWM''],
         P [''mods'', ''m2'', ''sound'', ''voice'', ''npc'', ''b.wav'']] (fs example_machine)
       = (Exited 1, example_disk)"
    by (simp add: example_host_def example_machine_def)
  have f: "is_file example_disk [''mods'', ''m2'', ''sound'', ''voice'', ''npc'', ''b.XWM'']"
    by (simp add: is_file_def example_disk_def)
  from convert_xwm_deletes_input[OF h1 h2] h1 h2 f show ?thesis by blast
qed

subsection \<open>Decoding a compressed voice file\<close>

lemma is_file_exists: "\<not> exists t p \<Longrightarrow> \<not> is_file t p"
  by (auto simp: exists_def is_file_def)

text \<open>
  C2, as amended. For every path with a file name, so for every \<open>.fuz\<close> path (\<open>xwm\<close>
  and \<open>lip\<close> are the paths with the suffixes \<open>.xwm\<close> and \<open>.lip\<close>), whatever exit code
  \<open>rc\<close> the decoder ends with, and provided that the encoder, if the \<open>.xwm\<close> companion
  exists after the decoder's run, starts and ends with some exit code \<open>rc2\<close>:
  \<open>decode_fuz\<close> returns normally and no file is left at the original path. If the
  \<open>.xwm\<close> companion exists after the decoder's run, it is converted (the encoder is run
  on it and it is deleted); a \<open>.lip\<close> companion that is a file is deleted too.
\<close>

theorem decode_fuz_deletes_original:
  assumes "with_suffix p ''.xwm'' = Inr xwm" and "with_suffix p ''.lip'' = Inr lip"
    and "with_suffix xwm ''.wav'' = Inr wav"
    and "tools_of h [P (bmlfuzdecode_path ed), P p] (fs w) = (Exited rc, t1)"
    and "exists t1 xwm \<longrightarrow>
           tools_of h [P (xwmaencode_path ed), P xwm, P wav] t1 = (Exited rc2, t2)"
  shows "fst (decode_fuz ed h p w) = Inr ()
       \<and> procs (snd (decode_fuz ed h p w)) =
           procs w @ [P (bmlfuzdecode_path ed), P p]
             # (if exists t1 xwm then [[P (xwmaencode_path ed), P xwm, P wav]] else [])
       \<and> fs (snd (decode_fuz ed h p w)) =
           (let t3 = removed p (if exists t1 xwm then removed xwm t2 else t1)
            in if exists t3 lip then removed lip t3 else t3)
       \<and> \<not> is_file (fs (snd (decode_fuz ed h p w))) p
       \<and> \<not> is_file (fs (snd (decode_fuz ed h p w))) xwm
       \<and> \<not> is_file (fs (snd (decode_fuz ed h p w))) lip"
proof -
  note d = decode_fuz_exited[OF assms]
  from assms(1) have p: "p \<noteq> []"
    by (auto simp: with_suffix_def name_def split: if_splits)
  from with_suffix_nonempty[OF assms(1)] have x: "xwm \<noteq> []" by simp
  from with_suffix_nonempty[OF assms(2)] have l: "lip \<noteq> []" by simp
  define u2 where "u2 = (if exists t1 xwm then removed xwm t2 else t1)"
  define u3 where "u3 = removed p u2"
  define u4 where "u4 = (if exists u3 lip then removed lip u3 else u3)"
  have fs: "fs (snd (decode_fuz ed h p w)) = u4"
    using d by (simp add: Let_def u2_def u3_def u4_def)
  have x2: "\<not> is_file u2 xwm"
  proof (cases "exists t1 xwm")
    case True
    then show ?thesis using removed_not_file[OF x] by (simp add: u2_def)
  next
    case False
    then show ?thesis by (simp add: u2_def is_file_exists)
  qed
  have p3: "\<not> is_file u3 p" using removed_not_file[OF p] by (simp add: u3_def)
  have x3: "\<not> is_file u3 xwm" using x2 removed_mono[of p u2 xwm] by (auto simp: u3_def)
  have l4: "\<not> is_file u4 lip"
  proof (cases "exists u3 lip")
    case True
    then show ?thesis using removed_not_file[OF l] by (simp add: u4_def)
  next
    case False
    then show ?thesis by (simp add: u4_def is_file_exists)
  qed
  have p4: "\<not> is_file u4 p"
    using p3 removed_mono[of lip u3 p] by (cases "exists u3 lip") (auto simp: u4_def)
  have x4: "\<not> is_file u4 xwm"
    using x3 removed_mono[of lip u3 xwm] by (cases "exists u3 lip") (auto simp: u4_def)
  from d have "fst (decode_fuz ed h p w) = Inr ()"
    and "procs (snd (decode_fuz ed h p w)) =
           procs w @ [P (bmlfuzdecode_path ed), P p]
             # (if exists t1 xwm then [[P (xwmaencode_path ed), P xwm, P wav]] else [])"
    and "fs (snd (decode_fuz ed h p w)) =
           (let t3 = removed p (if exists t1 xwm then removed xwm t2 else t1)
            in if exists t3 lip then removed lip t3 else t3)"
    by blast+
  moreover note p4[folded fs] x4[folded fs] l4[folded fs]
  ultimately show ?thesis by blast
qed


theorem decode_fuz_deletes_original_witness:
  "with_suffix [''mods'', ''m2'', ''sound'', ''voice'', ''npc'', ''a.fuz''] ''.xwm''
     = Inr [''mods'', ''m2'', ''sound'', ''voice'', ''npc'', ''a.xwm'']
   \<and> with_suffix [''mods'', ''m2'', ''sound'', ''voice'', ''npc'', ''a.fuz''] ''.lip''
     = Inr [''mods'', ''m2'', ''sound'', ''voice'', ''npc'', ''a.lip'']
   \<and> with_suffix [''mods'', ''m2'', ''sound'', ''voice'', ''npc'', ''a.xwm''] ''.wav''
     = Inr [''mods'', ''m2'', ''sound'', ''voice'', ''npc'', ''a.wav'']
   \<and> tools_of (example_decoding_host (Exited 2))
        [P (bmlfuzdecode_path example_editor),
         P [''mods'', ''m2'', ''sound'', ''voice'', ''npc'', ''a.fuz'']] (fs example_machine)
       = (Exited 0,
          put [''mods'', ''m2'', ''sound'', ''voice'', ''npc'', ''a.xwm'']
            (Some (File (Data ''X''))) example_disk)
   \<and> exists (put [''mods'', ''m2'', ''sound'', ''voice'', ''npc'', ''a.xwm'']
               (Some (File (Data ''X''))) example_disk)
        [''mods'', ''m2'', ''sound'', ''voice'', ''npc'', ''a.xwm'']
   \<and> tools_of (example_decoding_host (Exited 2))
        [P (xwmaencode_path example_editor),
         P [''mods'', ''m2'', ''sound'', ''voice'', ''npc'', ''a.xwm''],
         P [''mods'', ''m2'', ''sound'', ''voice'', ''npc'', ''a.wav'']]
        (put [''mods'', ''m2'', ''sound'', ''voice'', ''npc'', ''a.xwm'']
           (Some (File (Data ''X''))) example_disk)
       = (Exited 2,
          put [''mods'', ''m2'', ''sound'', ''voice'', ''npc'', ''a.xwm'']
            (Some (File (Data ''X''))) example_disk)
   \<and> is_file example_disk [''mods'', ''m2'', ''sound'', ''voice'', ''npc'', ''a.fuz'']
   \<and> is_file example_disk [''mods'', ''m2'', ''sound'', ''voice'', ''npc'', ''a.lip'']
   \<and> fst (decode_fuz example_editor (example_decoding_host (Exited 2))
             [''mods'', ''m2'', ''sound'', ''voice'', ''npc'', ''a.fuz''] example_machine) = Inr ()
   \<and> procs (snd (decode_fuz example_editor (example_decoding_host (Exited 2))
             [''mods'', ''m2'', ''sound'', ''voice'', ''npc'', ''a.fuz''] example_machine))
       = [[P (bmlfuzdecode_path example_editor),
           P [''mods'', ''m2'', ''sound'', ''voice'', ''npc'', ''a.fuz'']],
          [P (xwmaencode_path example_editor),
           P [''mods'', ''m2'', ''sound'', ''voice'', ''npc'', ''a.xwm''],
           P [''mods'', ''m2'', ''sound'', ''voice'', ''npc'', ''a.wav'']]]
   \<and> \<not> is_file (fs (snd (decode_fuz example_editor (example_decoding_host (Exited 2))
             [''mods'', ''m2'', ''sound'', ''voice'', ''npc'', ''a.fuz''] example_machine)))
         [''mods'', ''m2'', ''sound'', ''voice'', ''npc'', ''a.fuz'']
   \<and> \<not> is_file (fs (snd (decode_fuz example_editor (example_decoding_host (Exited 2))
             [''mods'', ''m2'', ''sound'', ''voice'', ''npc'', ''a.fuz''] example_machine)))
         [''mods'', ''m2'', ''sound'', ''voice'', ''npc'', ''a.xwm'']
   \<and> \<not> is_file (fs (snd (decode_fuz example_editor (example_decoding_host (Exited 2))
             [''mods'', ''m2'', ''sound'', ''voice'', ''npc'', ''a.fuz''] example_machine)))
         [''mods'', ''m2'', ''sound'', ''voice'', ''npc'', ''a.lip'']"
proof -
  let ?t1 = "put [''mods'', ''m2'', ''sound'', ''voice'', ''npc'', ''a.xwm'']
               (Some (File (Data ''X''))) example_disk"
  have h1: "with_suffix [''mods'', ''m2'', ''sound'', ''voice'', ''npc'', ''a.fuz''] ''.xwm''
     = Inr [''mods'', ''m2'', ''sound'', ''voice'', ''npc'', ''a.xwm'']"
    and h2: "with_suffix [''mods'', ''m2'', ''sound'', ''voice'', ''npc'', ''a.fuz''] ''.lip''
     = Inr [''mods'', ''m2'', ''sound'', ''voice'', ''npc'', ''a.lip'']"
    and h3: "with_suffix [''mods'', ''m2'', ''sound'', ''voice'', ''npc'', ''a.xwm''] ''.wav''
     = Inr [''mods'', ''m2'', ''sound'', ''voice'', ''npc'', ''a.wav'']"
    by (simp_all add: with_suffix_def name_def suffix_of_def)
  have h4: "tools_of (example_decoding_host (Exited 2))
        [P (bmlfuzdecode_path example_editor),
         P [''mods'', ''m2'', ''sound'', ''voice'', ''npc'', ''a.fuz'']] (fs example_machine)
       = (Exited 0, ?t1)"
    by (simp add: example_decoding_host_def example_machine_def example_editor_def)
  have e: "exists ?t1 [''mods'', ''m2'', ''sound'', ''voice'', ''npc'', ''a.xwm'']"
    by (simp add: exists_def example_disk_def)
  have r: "tools_of (example_decoding_host (Exited 2))
        [P (xwmaencode_path example_editor),
         P [''mods'', ''m2'', ''sound'', ''voice'', ''npc'', ''a.xwm''],
         P [''mods'', ''m2'', ''sound'', ''voice'', ''npc'', ''a.wav'']] ?t1
       = (Exited 2, ?t1)"
    by (simp add: example_decoding_host_def example_editor_def)
  then have h5: "exists ?t1 [''mods'', ''m2'', ''sound'', ''voice'', ''npc'', ''a.xwm'']
      \<longrightarrow> tools_of (example_decoding_host (Exited 2))
            [P (xwmaencode_path example_editor),
             P [''mods'', ''m2'', ''sound'', ''voice'', ''npc'', ''a.xwm''],
             P [''mods'', ''m2'', ''sound'', ''voice'', ''npc'', ''a.wav'']] ?t1
          = (Exited 2, ?t1)"
    by simp
  have f: "is_file example_disk [''mods'', ''m2'', ''sound'', ''voice'', ''npc'', ''a.fuz'']"
    "is_file example_disk [''mods'', ''m2'', ''sound'', ''voice'', ''npc'', ''a.lip'']"
    by (simp_all add: is_file_def example_disk_def)
  have p: "procs example_machine = []" by (simp add: example_machine_def)
  note d = decode_fuz_deletes_original[OF h1 h2 h3 h4 h5]
  have c1: "fst (decode_fuz example_editor (example_decoding_host (Exited 2))
             [''mods'', ''m2'', ''sound'', ''voice'', ''npc'', ''a.fuz''] example_machine) = Inr ()"
    by (rule d[THEN conjunct1])
  have c2: "procs (snd (decode_fuz example_editor (example_decoding_host (Exited 2))
             [''mods'', ''m2'', ''sound'', ''voice'', ''npc'', ''a.fuz''] example_machine))
       = [[P (bmlfuzdecode_path example_editor),
           P [''mods'', ''m2'', ''sound'', ''voice'', ''npc'', ''a.fuz'']],
          [P (xwmaencode_path example_editor),
           P [''mods'', ''m2'', ''sound'', ''voice'', ''npc'', ''a.xwm''],
           P [''mods'', ''m2'', ''sound'', ''voice'', ''npc'', ''a.wav'']]]"
    using d[THEN conjunct2, THEN conjunct1] e by (simp only: p if_True append_Nil)
  note c3 = d[THEN conjunct2, THEN conjunct2, THEN conjunct2]
  from c1 c2 c3 h1 h2 h3 h4 e r f show ?thesis by blast
qed

text \<open>
  C2 as it is written fails where the encoder cannot be started: the decoder ends with
  the exit code 0 and leaves the \<open>.xwm\<close> companion, \<open>convert_xwm\<close> is called on it, the
  run of the encoder raises an \<open>OSError\<close>, which only \<open>CalledProcessError\<close> handlers
  stand in the way of, and \<open>decode_fuz\<close> ends with it: the original file, the \<open>.xwm\<close>
  and the \<open>.lip\<close> companion are all still there.
\<close>

theorem decode_fuz_counterexample:
  "tools_of (example_decoding_host LaunchFailed)
        [P (bmlfuzdecode_path example_editor),
         P [''mods'', ''m2'', ''sound'', ''voice'', ''npc'', ''a.fuz'']] (fs example_machine)
     = (Exited 0,
        put [''mods'', ''m2'', ''sound'', ''voice'', ''npc'', ''a.xwm'']
          (Some (File (Data ''X''))) example_disk)
   \<and> fst (decode_fuz example_editor (example_decoding_host LaunchFailed)
             [''mods'', ''m2'', ''sound'', ''voice'', ''npc'', ''a.fuz''] example_machine)
       = Inl OSError
   \<and> is_file (fs (snd (decode_fuz example_editor (example_decoding_host LaunchFailed)
             [''mods'', ''m2'', ''sound'', ''voice'', ''npc'', ''a.fuz''] example_machine)))
         [''mods'', ''m2'', ''sound'', ''voice'', ''npc'', ''a.fuz'']
   \<and> is_file (fs (snd (decode_fuz example_editor (example_decoding_host LaunchFailed)
             [''mods'', ''m2'', ''sound'', ''voice'', ''npc'', ''a.fuz''] example_machine)))
         [''mods'', ''m2'', ''sound'', ''voice'', ''npc'', ''a.xwm'']
   \<and> is_file (fs (snd (decode_fuz example_editor (example_decoding_host LaunchFailed)
             [''mods'', ''m2'', ''sound'', ''voice'', ''npc'', ''a.fuz''] example_machine)))
         [''mods'', ''m2'', ''sound'', ''voice'', ''npc'', ''a.lip'']"
  by code_simp

subsection \<open>Extracting an archive\<close>

lemma lookup_put_apart:
  "\<not> prefix p q \<Longrightarrow> \<not> prefix q p \<Longrightarrow> lookup (put p v t) q = lookup t q"
proof (induction p v t arbitrary: q rule: put.induct)
  case (1 v t)
  then show ?case by simp
next
  case (2 x xs v c)
  then show ?case by simp
next
  case (3 x v es)
  then show ?case
    by (cases q) (auto simp: update_conv' delete_conv' split: option.splits)
next
  case (4 x y ys v es)
  show ?case
  proof (cases q)
    case Nil
    with 4 show ?thesis by simp
  next
    case (Cons z q')
    with 4 show ?thesis
      by (auto simp: update_conv' split: option.splits)
  qed
qed

lemma stat_cases: "stat t p = None \<or> stat t p = Some None \<or> (\<exists>c. stat t p = Some (Some c))"
  by (cases "stat t p") auto

lemma butlast_joinpath: "butlast (joinpath p n) = p"
  by (simp add: joinpath_def)

lemma reset_facts:
  assumes "is_dir t sd" and "\<not> is_file t (joinpath sd n)"
  shows "stat (reset (joinpath sd n) t) (joinpath sd n) = None"
    and "stat (reset (joinpath sd n) t) sd = Some None"
proof -
  let ?d = "joinpath sd n"
  have np: "\<not> prefix ?d sd" by (simp add: joinpath_def prefix_def)
  have ne: "?d \<noteq> []" by (simp add: joinpath_def)
  show "stat (reset ?d t) ?d = None"
  proof (cases "is_dir t ?d")
    case True
    then show ?thesis using assms(1) ne
      by (simp add: reset_def rmtree_def stat_put butlast_joinpath is_dir_stat)
  next
    case False
    with assms(2) stat_cases[of t ?d] show ?thesis
      by (auto simp: reset_def is_dir_stat is_file_stat)
  qed
  show "stat (reset ?d t) sd = Some None"
    using assms(1) np by (simp add: reset_def rmtree_def stat_put is_dir_stat)
qed

lemma mkdir_after_reset:
  assumes "is_dir t sd" and "\<not> is_file t (joinpath sd n)"
  shows "mkdir (reset (joinpath sd n) t) (joinpath sd n)
           = Inr (put (joinpath sd n) (Some (Dir [])) (reset (joinpath sd n) t))"
  using reset_facts[OF assms]
  by (simp add: mkdir_def is_dir_stat exists_stat parent_def butlast_joinpath) (simp add: joinpath_def)

lemma reset_step:
  "(\<lambda>w. if exists (fs w) d \<and> is_dir (fs w) d
         then log_call INFO m vs (w\<lparr>fs := rmtree (fs w) d\<rparr>)
         else (Inr (), w)) w
     = (Inr (), (if is_dir (fs w) d then emit INFO m vs w else w)\<lparr>fs := reset d (fs w)\<rparr>)"
  by (auto simp: log_call_def emit_def reset_def exists_stat is_dir_stat)

lemma suffix_joinpath_nonempty: "suffix_of (joinpath p n) \<noteq> [] \<Longrightarrow> n \<noteq> []"
  by (auto simp: suffix_of_def name_def joinpath_def split: option.splits if_splits)

lemma lookup_put_under:
  "y \<noteq> [] \<Longrightarrow> lookup (put (p @ y) v t) p = map_option (put y v) (lookup t p)"
proof (induction p arbitrary: t)
  case Nil
  then show ?case by simp
next
  case (Cons x p)
  from Cons.prems obtain z zs where zs: "p @ y = z # zs" by (cases "p @ y") auto
  show ?case
  proof (cases t)
    case (File c)
    then show ?thesis by simp
  next
    case (Dir es)
    show ?thesis
    proof (cases "map_of es x")
      case None
      with Dir zs show ?thesis by simp
    next
      case (Some c)
      with Dir zs Cons.IH[OF Cons.prems, of c] show ?thesis
        by (simp add: update_conv')
    qed
  qed
qed

lemma put_None_keys:
  assumes "y \<noteq> []"
  shows "\<exists>es'. put y None (Dir es) = Dir es'
           \<and> (map fst es' = map fst es \<or> map fst es' = filter (\<lambda>n. n \<noteq> last y) (map fst es))"
proof (cases y)
  case Nil
  with assms show ?thesis by simp
next
  case (Cons x ys)
  show ?thesis
  proof (cases ys)
    case Nil
    have "map fst (AList.delete x es) = filter (\<lambda>n. n \<noteq> x) (map fst es)"
      by (induction es) auto
    with Cons Nil show ?thesis by simp
  next
    case (Cons z zs)
    show ?thesis
    proof (cases "map_of es x")
      case None
      with \<open>y = x # ys\<close> Cons show ?thesis by simp
    next
      case (Some c)
      then have "x \<in> fst ` set es" using map_of_eq_None_iff[of es x] by auto
      then have "map fst (AList.update x (put (z # zs) None c) es) = map fst es"
        by (simp add: update_keys)
      with \<open>y = x # ys\<close> Cons Some show ?thesis by simp
    qed
  qed
qed

lemma find_filter_other:
  "\<not> Q x \<Longrightarrow> find Q (filter (\<lambda>n. n \<noteq> x) xs) = find Q xs"
  by (induction xs) auto

lemma archive_after_reset:
  assumes "lookup t mod_path = Some (Dir es)"
    and "find (\<lambda>n. lower (suffix_of (joinpath mod_path n)) = ''.bsa'') (map fst es) = Some bsa"
    and "\<not> prefix (joinpath sd ''extracted_files'') mod_path"
  shows "\<exists>es'. lookup (reset (joinpath sd ''extracted_files'') t) mod_path = Some (Dir es')
           \<and> find (\<lambda>n. lower (suffix_of (joinpath mod_path n)) = ''.bsa'') (map fst es') = Some bsa"
proof (cases "is_dir t (joinpath sd ''extracted_files'')")
  case False
  with assms show ?thesis by (simp add: reset_def)
next
  case True
  let ?d = "joinpath sd ''extracted_files''"
  let ?Q = "\<lambda>n. lower (suffix_of (joinpath mod_path n)) = ''.bsa''"
  show ?thesis
  proof (cases "prefix mod_path ?d")
    case False
    with assms True show ?thesis by (simp add: reset_def rmtree_def lookup_put_apart)
  next
    case pre: True
    then obtain y where y: "?d = mod_path @ y" by (auto simp: prefix_def)
    with assms(3) have yne: "y \<noteq> []" by auto
    from y yne have ly: "last y = ''extracted_files''"
      by (metis joinpath_def last_appendR last_snoc)
    have nq: "\<not> ?Q (last y)"
      unfolding ly by (simp add: suffix_of_def name_def joinpath_def lower_def)
    from put_None_keys[OF yne, of es] obtain es' where
      p: "put y None (Dir es) = Dir es'"
      and k: "map fst es' = map fst es \<or> map fst es' = filter (\<lambda>n. n \<noteq> last y) (map fst es)"
      by blast
    have l: "lookup (reset ?d t) mod_path = Some (Dir es')"
      using True lookup_put_under[OF yne, of mod_path None t] assms(1) p
      by (simp add: reset_def rmtree_def y)
    from k have "find ?Q (map fst es') = find ?Q (map fst es)"
      using find_filter_other[of ?Q "last y" "map fst es", OF nq] by auto
    with l assms(2) show ?thesis by simp
  qed
qed

text \<open>
  C4. For a mod directory that has, among its immediate children, an entry whose suffix
  is \<open>.bsa\<close> in any case (\<open>bsa\<close> is the first of them), on a machine where the module's
  directory exists, the workspace path is not a plain file and the mod directory does
  not lie in the workspace, and where the run of the extractor, on the file system
  \<open>extract_bsa\<close> calls it on (the workspace removed and made anew, empty), ends with the
  exit code \<open>rc\<close>: \<open>extract_bsa\<close> runs the extractor exactly once, with the arguments
  \<open>unpack\<close>, the archive's path and the workspace path, and returns the workspace path
  when \<open>rc\<close> is zero and \<open>None\<close> otherwise.
\<close>

theorem extract_bsa_with_archive:
  assumes "lookup (fs w) mod_path = Some (Dir es)"
    and "find (\<lambda>n. lower (suffix_of (joinpath mod_path n)) = ''.bsa'') (map fst es) = Some bsa"
    and "is_dir (fs w) (script_dir h)"
    and "\<not> is_file (fs w) (joinpath (script_dir h) ''extracted_files'')"
    and "\<not> prefix (joinpath (script_dir h) ''extracted_files'') mod_path"
    and "fst (tools_of h [P (bsarch_path ed), S ''unpack'', P (joinpath mod_path bsa),
                P (joinpath (script_dir h) ''extracted_files'')]
               (put (joinpath (script_dir h) ''extracted_files'') (Some (Dir []))
                  (reset (joinpath (script_dir h) ''extracted_files'') (fs w)))) = Exited rc"
  shows "fst (extract_bsa ed h mod_path w)
           = Inr (if rc = 0 then Some (joinpath (script_dir h) ''extracted_files'') else None)
       \<and> procs (snd (extract_bsa ed h mod_path w))
           = procs w @ [[P (bsarch_path ed), S ''unpack'', P (joinpath mod_path bsa),
                         P (joinpath (script_dir h) ''extracted_files'')]]"
proof -
  let ?d = "joinpath (script_dir h) ''extracted_files''"
  let ?cmd = "[P (bsarch_path ed), S ''unpack'', P (joinpath mod_path bsa), P ?d]"
  define w1 where "w1 = (if is_dir (fs w) ?d
      then emit INFO ''Removed existing directory: {extract_destination}'' [VPath ?d] w
      else w)\<lparr>fs := reset ?d (fs w)\<rparr>"
  have w1: "fs w1 = reset ?d (fs w)" "procs w1 = procs w"
    by (simp_all add: w1_def emit_def)
  from archive_after_reset[OF assms(1,2,5)] obtain es' where
    l1: "lookup (fs w1) mod_path = Some (Dir es')"
    and f1: "find (\<lambda>n. lower (suffix_of (joinpath mod_path n)) = ''.bsa'') (map fst es') = Some bsa"
    unfolding w1 by blast
  have f: "find_bsa_file mod_path w1 = (Inr (Some bsa), w1)"
    using l1 f1 by (simp add: find_bsa_file_def)
  from assms(2) have "lower (suffix_of (joinpath mod_path bsa)) = ''.bsa''"
    by (auto simp: find_Some_iff)
  then have "suffix_of (joinpath mod_path bsa) \<noteq> []" by (auto simp: lower_def)
  then have bne: "bsa \<noteq> []" by (rule suffix_joinpath_nonempty)
  define w2 where "w2 = w1\<lparr>fs := put ?d (Some (Dir [])) (fs w1)\<rparr>"
  have fw2: "fs w2 = put ?d (Some (Dir [])) (reset ?d (fs w))"
    by (simp add: w2_def w1)
  have m: "mkdir (fs w1) ?d = Inr (fs w2)"
    using mkdir_after_reset[OF assms(3,4)] by (simp add: w1 w2_def)
  obtain t3 where t3: "tools_of h ?cmd (fs w2) = (Exited rc, t3)"
    using assms(6) unfolding fw2[symmetric] by (metis fst_conv prod.exhaust)
  have "extract_bsa ed h mod_path w =
          (if rc = 0
           then (Inr (Some ?d),
                 emit INFO ''Successfully extracted {bsa_file} to {extract_destination}''
                   [VStr bsa, VPath ?d] (w2\<lparr>fs := t3, procs := procs w2 @ [?cmd]\<rparr>))
           else (Inr None,
                 emit ERROR ''An error occurred while extracting {bsa_file}: {e}''
                   [VStr bsa, VExc (CalledProcessError rc)]
                   (w2\<lparr>fs := t3, procs := procs w2 @ [?cmd]\<rparr>)))"
    unfolding extract_bsa_def Let_def
    apply (subst bind_def)
    apply (subst reset_step)
    apply (fold w1_def)
    apply (simp add: bind_def f bne m except_called_process_error_def subprocess_run_def t3
        log_call_def ret_def)
    apply (simp add: w2_def)
    done
  then show ?thesis by (simp add: emit_def w2_def w1)
qed


theorem extract_bsa_with_archive_witness:
  "lookup (fs example_machine) [''mods'', ''m1'']
     = Some (Dir [(''readme.txt'', File (Data ''r'')), (''Voices.BSA'', File (Data ''b''))])
   \<and> find (\<lambda>n. lower (suffix_of (joinpath [''mods'', ''m1''] n)) = ''.bsa'')
        (map fst [(''readme.txt'', File (Data ''r'')), (''Voices.BSA'', File (Data ''b''))])
       = Some ''Voices.BSA''
   \<and> is_dir (fs example_machine) (script_dir example_unpacking_host)
   \<and> \<not> is_file (fs example_machine) (joinpath (script_dir example_unpacking_host) ''extracted_files'')
   \<and> \<not> prefix (joinpath (script_dir example_unpacking_host) ''extracted_files'') [''mods'', ''m1'']
   \<and> fst (tools_of example_unpacking_host
             [P (bsarch_path example_editor), S ''unpack'',
              P (joinpath [''mods'', ''m1''] ''Voices.BSA''),
              P (joinpath (script_dir example_unpacking_host) ''extracted_files'')]
             (put (joinpath (script_dir example_unpacking_host) ''extracted_files'') (Some (Dir []))
                (reset (joinpath (script_dir example_unpacking_host) ''extracted_files'')
                   (fs example_machine)))) = Exited 0
   \<and> fst (tools_of example_unpacking_host
             [P (bsarch_path example_editor), S ''unpack'',
              P (joinpath [''mods'', ''m1''] ''Voices.BSA''),
              P (joinpath (script_dir example_unpacking_host) ''extracted_files'')]
             (fs example_machine)) = Exited 2
   \<and> fst (extract_bsa example_editor example_unpacking_host [''mods'', ''m1''] example_machine)
       = Inr (Some [''app'', ''extracted_files''])
   \<and> procs (snd (extract_bsa example_editor example_unpacking_host [''mods'', ''m1''] example_machine))
       = [[P [''tools'', ''bsarch.exe''], S ''unpack'', P [''mods'', ''m1'', ''Voices.BSA''],
           P [''app'', ''extracted_files'']]]"
proof -
  have h1: "lookup (fs example_machine) [''mods'', ''m1'']
     = Some (Dir [(''readme.txt'', File (Data ''r'')), (''Voices.BSA'', File (Data ''b''))])"
    by (simp add: example_machine_def example_disk_def)
  have h2: "find (\<lambda>n. lower (suffix_of (joinpath [''mods'', ''m1''] n)) = ''.bsa'')
        (map fst [(''readme.txt'', File (Data ''r'')), (''Voices.BSA'', File (Data ''b''))])
       = Some ''Voices.BSA''"
    by (simp add: suffix_of_def name_def joinpath_def lower_def lower_char_def)
  have h3: "is_dir (fs example_machine) (script_dir example_unpacking_host)"
    by (simp add: is_dir_def example_machine_def example_disk_def example_unpacking_host_def)
  have h4: "\<not> is_file (fs example_machine)
               (joinpath (script_dir example_unpacking_host) ''extracted_files'')"
    by (simp add: is_file_def example_machine_def example_disk_def example_unpacking_host_def
        joinpath_def)
  have h5: "\<not> prefix (joinpath (script_dir example_unpacking_host) ''extracted_files'')
               [''mods'', ''m1'']"
    by (simp add: example_unpacking_host_def joinpath_def)
  have h6: "fst (tools_of example_unpacking_host
             [P (bsarch_path example_editor), S ''unpack'',
              P (joinpath [''mods'', ''m1''] ''Voices.BSA''),
              P (joinpath (script_dir example_unpacking_host) ''extracted_files'')]
             (put (joinpath (script_dir example_unpacking_host) ''extracted_files'') (Some (Dir []))
                (reset (joinpath (script_dir example_unpacking_host) ''extracted_files'')
                   (fs example_machine)))) = Exited 0"
    by code_simp
  have o: "fst (tools_of example_unpacking_host
             [P (bsarch_path example_editor), S ''unpack'',
              P (joinpath [''mods'', ''m1''] ''Voices.BSA''),
              P (joinpath (script_dir example_unpacking_host) ''extracted_files'')]
             (fs example_machine)) = Exited 2"
    by code_simp
  from extract_bsa_with_archive[OF h1 h2 h3 h4 h5 h6]
  have c: "fst (extract_bsa example_editor example_unpacking_host [''mods'', ''m1''] example_machine)
       = Inr (Some [''app'', ''extracted_files''])
   \<and> procs (snd (extract_bsa example_editor example_unpacking_host [''mods'', ''m1''] example_machine))
       = [[P [''tools'', ''bsarch.exe''], S ''unpack'', P [''mods'', ''m1'', ''Voices.BSA''],
           P [''app'', ''extracted_files'']]]"
    by (simp add: example_machine_def example_editor_def example_unpacking_host_def joinpath_def)
  from h1 h2 h3 h4 h5 h6 o c show ?thesis by blast
qed

subsection \<open>Copying loose voice files\<close>

lemma stat_file_lookup: "stat t p = Some (Some c) \<longleftrightarrow> lookup t p = Some (File c)"
  by (cases "lookup t p") (auto simp: stat_def split: node.splits)

lemma stat_dir_lookup: "stat t p = Some None \<longleftrightarrow> (\<exists>es. lookup t p = Some (Dir es))"
  by (cases "lookup t p") (auto simp: stat_def split: node.splits)

lemma stat_prefix:
  assumes "stat t p \<noteq> None" and "prefix x p" and "x \<noteq> p"
  shows "stat t x = Some None"
proof -
  from assms(2,3) obtain y where p: "p = x @ y" and y: "y \<noteq> []"
    by (auto simp: prefix_def)
  from assms(1) obtain n where n: "lookup t x = Some n" and s: "stat n y \<noteq> None"
    by (auto simp: p stat_append split: option.splits)
  from s y obtain es where "n = Dir es" by (cases n) (auto simp: stat_File)
  with n show ?thesis by (simp add: stat_def)
qed

lemma stat_under_file:
  assumes "stat t p = Some (Some c)" and "prefix p x" and "x \<noteq> p"
  shows "stat t x = None"
proof (rule ccontr)
  assume "stat t x \<noteq> None"
  from stat_prefix[OF this assms(2)] assms(3) have "stat t p = Some None" by simp
  with assms(1) show False by simp
qed

lemma mkdirs_ok:
  assumes "\<forall>k\<le>length p. \<forall>c. stat t (take k p) \<noteq> Some (Some c)"
  shows "\<exists>t'. mkdirs p t = Inr t' \<and> (\<forall>x. stat t' x = (if prefix x p then Some None else stat t x))"
  using assms
proof (induction p t rule: mkdirs.induct)
  case (1 p c)
  from 1[rule_format, of 0 c] show ?case by (simp add: stat_def)
next
  case (2 es)
  show ?case by (auto simp: stat_Nil_Dir)
next
  case (3 x xs es)
  let ?sub = "case map_of es x of Some c \<Rightarrow> c | None \<Rightarrow> Dir []"
  have "\<forall>k\<le>length xs. \<forall>c. stat ?sub (take k xs) \<noteq> Some (Some c)"
  proof (intro allI impI)
    fix k c assume k: "k \<le> length xs"
    show "stat ?sub (take k xs) \<noteq> Some (Some c)"
    proof (cases "map_of es x")
      case None
      have "stat (Dir []) y \<noteq> Some (Some c)" for y
        by (cases y) (simp_all add: stat_Nil_Dir stat_Cons_Dir)
      with None show ?thesis by simp
    next
      case (Some d)
      from 3(2)[rule_format, of "Suc k" c] k Some show ?thesis
        by (simp add: stat_Cons_Dir)
    qed
  qed
  from 3(1)[OF this] obtain c' where c': "mkdirs xs ?sub = Inr c'"
    and s: "\<forall>y. stat c' y = (if prefix y xs then Some None else stat ?sub y)"
    by blast
  have "\<forall>y. stat (Dir (AList.update x c' es)) y
            = (if prefix y (x # xs) then Some None else stat (Dir es) y)"
  proof
    fix y
    show "stat (Dir (AList.update x c' es)) y
            = (if prefix y (x # xs) then Some None else stat (Dir es) y)"
    proof (cases y)
      case Nil
      then show ?thesis by (simp add: stat_Nil_Dir)
    next
      case (Cons z ys)
      show ?thesis
      proof (cases "z = x")
        case True
        show ?thesis
        proof (cases "map_of es x")
          case None
          with True Cons s show ?thesis
            by (cases ys) (auto simp: stat_Cons_Dir stat_Nil_Dir update_conv')
        next
          case (Some d)
          with True Cons s show ?thesis
            by (auto simp: stat_Cons_Dir update_conv')
        qed
      next
        case False
        with Cons show ?thesis by (simp add: stat_Cons_Dir update_conv')
      qed
    qed
  qed
  with c' show ?case by simp
qed

lemma apart_under:
  assumes "\<not> prefix a b" and "\<not> prefix b a"
  shows "\<not> prefix (a @ x) (b @ y)"
proof
  assume "prefix (a @ x) (b @ y)"
  then have "prefix a (b @ y)" by (metis append_prefixD)
  moreover have "prefix b (b @ y)" by simp
  ultimately have "prefix a b \<or> prefix b a" by (rule prefix_same_cases)
  with assms show False by simp
qed

lemma parent_joinpath: "parent (joinpath p n) = p"
  by (simp add: parent_def joinpath_def)

lemma copy_audio_file_step:
  assumes ap: "\<not> prefix mod_path dest" "\<not> prefix dest mod_path"
    and mi: "mirror m mod_path dest (fs w)"
    and q: "lookup m q = Some (Dir es)"
    and f: "map_of es f = Some (File c)"
    and au: "is_audio f"
  shows "\<exists>w'. copy_audio_file dest mod_path (mod_path @ q) f afp w
               = (Inr (if afp = None then Some (mod_path @ q) else afp), w')
           \<and> mirror m mod_path dest (fs w')
           \<and> (\<forall>x. stat (fs w) (dest @ x) \<noteq> None \<longrightarrow> stat (fs w') (dest @ x) = stat (fs w) (dest @ x))
           \<and> stat (fs w') (dest @ q @ [f]) = Some (Some c)"
proof -
  let ?t = "fs w"
  from mi have i1: "\<And>x. stat ?t (mod_path @ x) = stat m x"
    and i2: "\<And>x. stat ?t (dest @ x) \<noteq> None \<Longrightarrow> stat ?t (dest @ x) = stat m x"
    and i3: "stat ?t dest = Some None"
    by (auto simp: mirror_def)
  have mq: "stat m q = Some None" using q by (simp add: stat_def)
  have mf: "stat m (q @ [f]) = Some (Some c)"
    using q f by (simp add: stat_append stat_Cons_Dir stat_File)
  have mpre: "stat m x = Some None" if "prefix x q" for x
    using that mq stat_prefix[of m q x] by (cases "x = q") auto
  have rel: "relative_to (mod_path @ q) mod_path = Inr q"
    by (simp add: relative_to_def)
  \<comment> \<open>the directories of the destination can be made\<close>
  have nofile: "\<forall>k\<le>length (dest @ q). \<forall>c. stat ?t (take k (dest @ q)) \<noteq> Some (Some c)"
  proof (intro allI impI)
    fix k c' assume "k \<le> length (dest @ q)"
    show "stat ?t (take k (dest @ q)) \<noteq> Some (Some c')"
    proof (cases "k \<le> length dest")
      case True
      then have "prefix (take k dest) dest" by (simp add: take_is_prefix)
      with i3 stat_prefix[of ?t dest "take k dest"] have "stat ?t (take k dest) = Some None"
        by (cases "take k dest = dest") auto
      with True show ?thesis by simp
    next
      case False
      then have tk: "take k (dest @ q) = dest @ take (k - length dest) q" by simp
      have "prefix (take (k - length dest) q) q" by (simp add: take_is_prefix)
      from mpre[OF this] i2[of "take (k - length dest) q"] show ?thesis
        unfolding tk by (cases "stat ?t (dest @ take (k - length dest) q) = None") auto
    qed
  qed
  from mkdirs_ok[OF nofile] obtain t1 where t1: "mkdirs (dest @ q) ?t = Inr t1"
    and s1: "\<And>x. stat t1 x = (if prefix x (dest @ q) then Some None else stat ?t x)"
    by blast
  \<comment> \<open>the copy\<close>
  let ?src = "mod_path @ q @ [f]" and ?dst = "dest @ q @ [f]"
  have js: "joinpath (mod_path @ q) f = ?src" "joinpath (dest @ q) f = ?dst"
    by (simp_all add: joinpath_def)
  have src: "stat t1 ?src = Some (Some c)"
    using i1[of "q @ [f]"] mf apart_under[OF ap, of "q @ [f]" q]
    by (simp add: s1)
  have dst_pre: "\<not> prefix ?dst (dest @ q)" by (simp add: prefix_def)
  have dst0: "stat t1 ?dst = stat ?t ?dst" using dst_pre by (simp add: s1)
  have dst_nodir: "\<not> is_dir t1 ?dst"
    using i2[of "q @ [f]"] mf dst0 by (auto simp: is_dir_stat)
  have bl: "butlast ?dst = dest @ q" by (simp add: butlast_append)
  have par: "is_dir t1 (parent ?dst)"
    by (simp add: is_dir_stat parent_def bl s1)
  have cp: "copy t1 ?src ?dst = Inr (put ?dst (Some (File c)) t1)"
    using src dst_nodir par
    by (simp add: copy_def stat_file_lookup Let_def)
  let ?t2 = "put ?dst (Some (File c)) t1"
  have s2: "\<And>x. stat ?t2 x = (if prefix ?dst x then stat (File c) (drop (length ?dst) x) else stat t1 x)"
    using par unfolding is_dir_stat parent_def by (simp add: stat_put)
  define w' where "w' = emit INFO ''Copied {Path(root) / file} to {destination_path / file}''
      [VPath ?src, VPath ?dst] (w\<lparr>fs := ?t2\<rparr>)"
  have fw: "fs w' = ?t2" by (simp add: w'_def emit_def)
  have run: "copy_audio_file dest mod_path (mod_path @ q) f afp w
               = (Inr (if afp = None then Some (mod_path @ q) else afp), w')"
    using au by (simp add: copy_audio_file_def bind_def lift_def rel t1 js cp log_call_def ret_def w'_def)
  \<comment> \<open>what is in the workspace afterwards\<close>
  have d: "stat ?t2 (dest @ x)
             = (if prefix (q @ [f]) x then (if x = q @ [f] then Some (Some c) else None)
                else if prefix x q then Some None else stat ?t (dest @ x))" for x
  proof (cases "prefix (q @ [f]) x")
    case True
    then obtain y where x: "x = q @ [f] @ y" by (auto simp: prefix_def)
    show ?thesis using True by (simp add: s2 x stat_File)
  next
    case False
    then show ?thesis by (simp add: s2 s1)
  qed
  have m1: "stat ?t2 (mod_path @ x) = stat m x" for x
    using apart_under[OF ap(2) ap(1), of "q @ [f]" x] apart_under[OF ap, of x q] i1[of x]
    by (simp add: s2 s1)
  have m2: "stat ?t2 (dest @ x) = stat m x" if "stat ?t2 (dest @ x) \<noteq> None" for x
  proof (cases "prefix (q @ [f]) x")
    case True
    with that d[of x] mf show ?thesis by (auto split: if_splits)
  next
    case False
    note nf = this
    show ?thesis
    proof (cases "prefix x q")
      case True
      with nf d[of x] mpre[OF True] show ?thesis by simp
    next
      case False
      with nf d[of x] that i2[of x] show ?thesis by simp
    qed
  qed
  have m3: "stat ?t2 dest = Some None"
    using d[of "[]"] by simp
  have mono: "stat ?t2 (dest @ x) = stat ?t (dest @ x)" if "stat ?t (dest @ x) \<noteq> None" for x
  proof -
    from i2[OF that] have e: "stat ?t (dest @ x) = stat m x" .
    show ?thesis
    proof (cases "prefix (q @ [f]) x")
      case True
      have "x = q @ [f]"
      proof (rule ccontr)
        assume "x \<noteq> q @ [f]"
        from stat_under_file[OF mf True this] e that show False by simp
      qed
      with d[of x] e mf show ?thesis by simp
    next
      case False
      note nf = this
      show ?thesis
      proof (cases "prefix x q")
        case True
        with nf d[of x] mpre[OF True] e show ?thesis by simp
      next
        case False
        with nf d[of x] show ?thesis by simp
      qed
    qed
  qed
  have cpd: "stat ?t2 (dest @ q @ [f]) = Some (Some c)" using d[of "q @ [f]"] by simp
  from run m1 m2 m3 mono cpd show ?thesis
    unfolding mirror_def fw[symmetric] by blast
qed

lemma copy_audio_file_skip:
  "\<not> is_audio f \<Longrightarrow> copy_audio_file dest mod_path rt f afp w = (Inr afp, w)"
  by (simp add: copy_audio_file_def ret_def)

lemma copy_audio_files_ok:
  assumes ap: "\<not> prefix mod_path dest" "\<not> prefix dest mod_path"
    and q: "lookup m q = Some (Dir es)"
    and fl: "\<forall>f\<in>set files. \<exists>c. map_of es f = Some (File c)"
    and mi: "mirror m mod_path dest (fs w)"
  shows "\<exists>afp' w'. copy_audio_files dest mod_path (mod_path @ q) files afp w = (Inr afp', w')
           \<and> mirror m mod_path dest (fs w')
           \<and> (\<forall>x. stat (fs w) (dest @ x) \<noteq> None \<longrightarrow> stat (fs w') (dest @ x) = stat (fs w) (dest @ x))
           \<and> (\<forall>f\<in>set files. is_audio f \<longrightarrow> stat (fs w') (dest @ q @ [f]) = stat m (q @ [f]))
           \<and> (afp' \<noteq> None \<longleftrightarrow> afp \<noteq> None \<or> (\<exists>f\<in>set files. is_audio f))"
  using fl mi
proof (induction files arbitrary: afp w)
  case Nil
  then show ?case by (simp add: ret_def)
next
  case (Cons f files)
  from Cons.prems(1) obtain c where c: "map_of es f = Some (File c)" by auto
  have mf: "stat m (q @ [f]) = Some (Some c)"
    using q c by (simp add: stat_append stat_Cons_Dir stat_File)
  have "\<exists>a1 w1. copy_audio_file dest mod_path (mod_path @ q) f afp w = (Inr a1, w1)
           \<and> mirror m mod_path dest (fs w1)
           \<and> (\<forall>x. stat (fs w) (dest @ x) \<noteq> None \<longrightarrow> stat (fs w1) (dest @ x) = stat (fs w) (dest @ x))
           \<and> (is_audio f \<longrightarrow> stat (fs w1) (dest @ q @ [f]) = Some (Some c))
           \<and> (a1 \<noteq> None \<longleftrightarrow> afp \<noteq> None \<or> is_audio f)"
  proof (cases "is_audio f")
    case True
    from copy_audio_file_step[OF ap Cons.prems(2) q c True, of afp] show ?thesis
      using True by auto
  next
    case False
    then show ?thesis using Cons.prems(2) by (simp add: copy_audio_file_skip)
  qed
  then obtain a1 w1 where r1: "copy_audio_file dest mod_path (mod_path @ q) f afp w = (Inr a1, w1)"
    and m1: "mirror m mod_path dest (fs w1)"
    and k1: "\<And>x. stat (fs w) (dest @ x) \<noteq> None \<Longrightarrow> stat (fs w1) (dest @ x) = stat (fs w) (dest @ x)"
    and c1: "is_audio f \<Longrightarrow> stat (fs w1) (dest @ q @ [f]) = Some (Some c)"
    and a1: "a1 \<noteq> None \<longleftrightarrow> afp \<noteq> None \<or> is_audio f"
    by blast
  from Cons.prems(1) have fl': "\<forall>f\<in>set files. \<exists>c. map_of es f = Some (File c)" by simp
  from Cons.IH[OF fl' m1, of a1] obtain a2 w2 where
    r2: "copy_audio_files dest mod_path (mod_path @ q) files a1 w1 = (Inr a2, w2)"
    and m2: "mirror m mod_path dest (fs w2)"
    and k2: "\<And>x. stat (fs w1) (dest @ x) \<noteq> None \<Longrightarrow> stat (fs w2) (dest @ x) = stat (fs w1) (dest @ x)"
    and c2: "\<And>g. g \<in> set files \<Longrightarrow> is_audio g \<Longrightarrow> stat (fs w2) (dest @ q @ [g]) = stat m (q @ [g])"
    and a2: "a2 \<noteq> None \<longleftrightarrow> a1 \<noteq> None \<or> (\<exists>f\<in>set files. is_audio f)"
    by blast
  have run: "copy_audio_files dest mod_path (mod_path @ q) (f # files) afp w = (Inr a2, w2)"
    by (simp add: bind_def r1 r2)
  have k: "stat (fs w2) (dest @ x) = stat (fs w) (dest @ x)" if "stat (fs w) (dest @ x) \<noteq> None" for x
    using k1[OF that] k2[of x] that by simp
  have cf: "stat (fs w2) (dest @ q @ [f]) = stat m (q @ [f])" if "is_audio f"
    using c1[OF that] k2[of "q @ [f]"] mf by simp
  have call: "\<forall>g\<in>set (f # files). is_audio g \<longrightarrow> stat (fs w2) (dest @ q @ [g]) = stat m (q @ [g])"
    using cf c2 by auto
  have aa: "a2 \<noteq> None \<longleftrightarrow> afp \<noteq> None \<or> (\<exists>g\<in>set (f # files). is_audio g)"
    using a1 a2 by auto
  from run m2 k call aa show ?case by blast
qed

lemma copy_audio_tree_ok:
  assumes ap: "\<not> prefix mod_path dest" "\<not> prefix dest mod_path"
    and so: "\<forall>it\<in>set items. sound_item m mod_path it"
    and mi: "mirror m mod_path dest (fs w)"
  shows "\<exists>afp' w'. copy_audio_tree dest mod_path items afp w = (Inr afp', w')
           \<and> mirror m mod_path dest (fs w')
           \<and> (\<forall>x. stat (fs w) (dest @ x) \<noteq> None \<longrightarrow> stat (fs w') (dest @ x) = stat (fs w) (dest @ x))
           \<and> (\<forall>q ds fls f. (mod_path @ q, ds, fls) \<in> set items \<and> f \<in> set fls \<and> is_audio f
                  \<longrightarrow> stat (fs w') (dest @ q @ [f]) = stat m (q @ [f]))
           \<and> (afp' \<noteq> None \<longleftrightarrow> afp \<noteq> None \<or> (\<exists>rt ds fls f. (rt, ds, fls) \<in> set items \<and> f \<in> set fls \<and> is_audio f))"
  using so mi
proof (induction items arbitrary: afp w)
  case Nil
  then show ?case by (simp add: ret_def)
next
  case (Cons it items)
  obtain rt ds fls where it: "it = (rt, ds, fls)" by (cases it)
  from Cons.prems(1) it obtain q es where rt: "rt = mod_path @ q" and q: "lookup m q = Some (Dir es)"
    and fl: "\<forall>f\<in>set fls. \<exists>c. map_of es f = Some (File c)"
    by (auto simp: sound_item_def)
  from copy_audio_files_ok[OF ap q fl Cons.prems(2), of afp] obtain a1 w1 where
    r1: "copy_audio_files dest mod_path (mod_path @ q) fls afp w = (Inr a1, w1)"
    and m1: "mirror m mod_path dest (fs w1)"
    and k1: "\<And>x. stat (fs w) (dest @ x) \<noteq> None \<Longrightarrow> stat (fs w1) (dest @ x) = stat (fs w) (dest @ x)"
    and c1: "\<And>f. f \<in> set fls \<Longrightarrow> is_audio f \<Longrightarrow> stat (fs w1) (dest @ q @ [f]) = stat m (q @ [f])"
    and a1: "a1 \<noteq> None \<longleftrightarrow> afp \<noteq> None \<or> (\<exists>f\<in>set fls. is_audio f)"
    by blast
  from Cons.prems(1) have so': "\<forall>it\<in>set items. sound_item m mod_path it" by simp
  from Cons.IH[OF so' m1, of a1] obtain a2 w2 where
    r2: "copy_audio_tree dest mod_path items a1 w1 = (Inr a2, w2)"
    and m2: "mirror m mod_path dest (fs w2)"
    and k2: "\<And>x. stat (fs w1) (dest @ x) \<noteq> None \<Longrightarrow> stat (fs w2) (dest @ x) = stat (fs w1) (dest @ x)"
    and c2: "\<And>q ds fls f. (mod_path @ q, ds, fls) \<in> set items \<Longrightarrow> f \<in> set fls \<Longrightarrow> is_audio f
                \<Longrightarrow> stat (fs w2) (dest @ q @ [f]) = stat m (q @ [f])"
    and a2: "a2 \<noteq> None \<longleftrightarrow> a1 \<noteq> None \<or> (\<exists>rt ds fls f. (rt, ds, fls) \<in> set items \<and> f \<in> set fls \<and> is_audio f)"
    by blast
  have run: "copy_audio_tree dest mod_path (it # items) afp w = (Inr a2, w2)"
    by (simp add: it rt bind_def r1 r2)
  have k: "stat (fs w2) (dest @ x) = stat (fs w) (dest @ x)" if "stat (fs w) (dest @ x) \<noteq> None" for x
    using k1[OF that] k2[of x] that by simp
  have call: "stat (fs w2) (dest @ q' @ [f]) = stat m (q' @ [f])"
    if "(mod_path @ q', ds', fls') \<in> set (it # items)" "f \<in> set fls'" "is_audio f" for q' ds' fls' f
  proof (cases "(mod_path @ q', ds', fls') = it")
    case True
    with it rt have e: "q' = q" "fls' = fls" by auto
    from q fl that(2) e obtain c where "map_of es f = Some (File c)" by auto
    with q have "stat m (q @ [f]) = Some (Some c)"
      by (simp add: stat_append stat_Cons_Dir stat_File)
    with c1[of f] that e k2[of "q @ [f]"] show ?thesis by simp
  next
    case False
    with that(1) have "(mod_path @ q', ds', fls') \<in> set items" by simp
    from c2[OF this that(2,3)] show ?thesis .
  qed
  have ex: "(\<exists>rt ds fls f. (rt, ds, fls) \<in> set (it # items) \<and> f \<in> set fls \<and> is_audio f)
        \<longleftrightarrow> (\<exists>f\<in>set fls. is_audio f)
            \<or> (\<exists>rt ds fls f. (rt, ds, fls) \<in> set items \<and> f \<in> set fls \<and> is_audio f)"
    (is "?L \<longleftrightarrow> ?A \<or> ?B")
  proof
    assume ?L
    then obtain r d l g where h: "(r, d, l) \<in> set (it # items)" "g \<in> set l" "is_audio g"
      by blast
    show "?A \<or> ?B"
    proof (cases "(r, d, l) = it")
      case True
      with it have "l = fls" by simp
      with h show ?thesis by blast
    next
      case False
      with h(1) have "(r, d, l) \<in> set items" by simp
      with h(2,3) show ?thesis by blast
    qed
  next
    assume "?A \<or> ?B"
    then show ?L
    proof
      assume ?A
      then obtain g where "g \<in> set fls" "is_audio g" by blast
      moreover have "(rt, ds, fls) \<in> set (it # items)" by (simp add: it)
      ultimately show ?L by blast
    next
      assume ?B
      then obtain r d l g where "(r, d, l) \<in> set items" "g \<in> set l" "is_audio g" by blast
      then have "(r, d, l) \<in> set (it # items) \<and> g \<in> set l \<and> is_audio g" by simp
      then show ?L by blast
    qed
  qed
  have aa: "a2 \<noteq> None \<longleftrightarrow> afp \<noteq> None
        \<or> (\<exists>rt ds fls f. (rt, ds, fls) \<in> set (it # items) \<and> f \<in> set fls \<and> is_audio f)"
  proof -
    have "a2 \<noteq> None \<longleftrightarrow> (afp \<noteq> None \<or> (\<exists>f\<in>set fls. is_audio f))
        \<or> (\<exists>rt ds fls f. (rt, ds, fls) \<in> set items \<and> f \<in> set fls \<and> is_audio f)"
      using a2 a1 by simp
    with ex show ?thesis by simp
  qed
  from run m2 k call aa show ?case by blast
qed

lemma files_of_iff: "f \<in> set [n. (n, File c) \<leftarrow> es] \<longleftrightarrow> (\<exists>c. (f, File c) \<in> set es)"
  by (induction es) (auto split: node.splits)

lemma walk_complete:
  "lookup m q = Some (Dir es) \<Longrightarrow>
     (r @ q, [n. (n, Dir ds) \<leftarrow> es], [n. (n, File c) \<leftarrow> es]) \<in> set (walk r m)"
  "map_of es0 x = Some c \<Longrightarrow> lookup c q = Some (Dir es) \<Longrightarrow>
     (r @ x # q, [n. (n, Dir ds) \<leftarrow> es], [n. (n, File c) \<leftarrow> es]) \<in> set (walk_entries r es0)"
proof (induction r m and r es0 arbitrary: q es and q es x c rule: walk_walk_entries.induct)
  case (1 rt c)
  then show ?case by (cases q) simp_all
next
  case (2 rt es')
  show ?case
  proof (cases q)
    case Nil
    with 2(2) show ?thesis by simp
  next
    case (Cons x q')
    with 2(2) obtain c where c: "map_of es' x = Some c" and l: "lookup c q' = Some (Dir es)"
      by (auto split: option.splits)
    from 2(1)[OF c l] Cons show ?thesis by simp
  qed
next
  case (3 rt)
  then show ?case by simp
next
  case (4 rt n c' es')
  show ?case
  proof (cases "x = n")
    case True
    with 4(3) have "c = c'" by simp
    with 4(1)[of q es] 4(4) True show ?thesis by simp
  next
    case False
    with 4(3) have "map_of es' x = Some c" by simp
    from 4(2)[OF this 4(4)] show ?thesis by simp
  qed
qed

lemma wf_entries_iff: "wf_entries es \<longleftrightarrow> (\<forall>(n, c)\<in>set es. wf_node c)"
  by (induction es) auto

lemma walk_sound:
  "wf_node m \<Longrightarrow> it \<in> set (walk r m) \<Longrightarrow>
     \<exists>q es. fst it = r @ q \<and> lookup m q = Some (Dir es) \<and> distinct (map fst es)
            \<and> snd (snd it) = [n. (n, File c) \<leftarrow> es]"
  "distinct (map fst es0) \<Longrightarrow> wf_entries es0 \<Longrightarrow> it \<in> set (walk_entries r es0) \<Longrightarrow>
     \<exists>x c q es. map_of es0 x = Some c \<and> fst it = r @ x # q \<and> lookup c q = Some (Dir es)
            \<and> distinct (map fst es) \<and> snd (snd it) = [n. (n, File c) \<leftarrow> es]"
proof (induction r m and r es0 arbitrary: it and it rule: walk_walk_entries.induct)
  case (1 rt c)
  then show ?case by simp
next
  case (2 rt es')
  from 2(3) have "it = (rt, [n. (n, Dir ds) \<leftarrow> es'], [n. (n, File c) \<leftarrow> es']) \<or> it \<in> set (walk_entries rt es')"
    by simp
  then show ?case
  proof
    assume "it = (rt, [n. (n, Dir ds) \<leftarrow> es'], [n. (n, File c) \<leftarrow> es'])"
    with 2(2) have "fst it = rt @ [] \<and> lookup (Dir es') [] = Some (Dir es') \<and> distinct (map fst es')
            \<and> snd (snd it) = [n. (n, File c) \<leftarrow> es']" by simp
    then show ?thesis by blast
  next
    assume a: "it \<in> set (walk_entries rt es')"
    from 2(2) have "distinct (map fst es')" "wf_entries es'" by simp_all
    from 2(1)[OF this a] obtain x c q es where
      h: "map_of es' x = Some c" "fst it = rt @ x # q" "lookup c q = Some (Dir es)"
         "distinct (map fst es)" "snd (snd it) = [n. (n, File c) \<leftarrow> es]"
      by blast
    then have "fst it = rt @ (x # q) \<and> lookup (Dir es') (x # q) = Some (Dir es) \<and> distinct (map fst es)
            \<and> snd (snd it) = [n. (n, File c) \<leftarrow> es]" by simp
    then show ?thesis by blast
  qed
next
  case (3 rt)
  then show ?case by simp
next
  case (4 rt n c' es')
  from 4(5) have "it \<in> set (walk (rt @ [n]) c') \<or> it \<in> set (walk_entries rt es')" by simp
  then show ?case
  proof
    assume a: "it \<in> set (walk (rt @ [n]) c')"
    from 4(4) have "wf_node c'" by simp
    from 4(1)[OF this a] obtain q es where
      h: "fst it = (rt @ [n]) @ q" "lookup c' q = Some (Dir es)" "distinct (map fst es)"
         "snd (snd it) = [n. (n, File c) \<leftarrow> es]"
      by blast
    then have "map_of ((n, c') # es') n = Some c' \<and> fst it = rt @ n # q \<and> lookup c' q = Some (Dir es)
            \<and> distinct (map fst es) \<and> snd (snd it) = [n. (n, File c) \<leftarrow> es]" by simp
    then show ?thesis by blast
  next
    assume a: "it \<in> set (walk_entries rt es')"
    from 4(3,4) have d: "distinct (map fst es')" "wf_entries es'" and nn: "n \<notin> fst ` set es'" by simp_all
    from 4(2)[OF d a] obtain x c q es where
      h: "map_of es' x = Some c" "fst it = rt @ x # q" "lookup c q = Some (Dir es)"
         "distinct (map fst es)" "snd (snd it) = [n. (n, File c) \<leftarrow> es]"
      by blast
    from h(1) have "x \<in> fst ` set es'" using map_of_eq_None_iff[of es' x] by auto
    with nn have "x \<noteq> n" by blast
    with h have "map_of ((n, c') # es') x = Some c \<and> fst it = rt @ x # q \<and> lookup c q = Some (Dir es)
            \<and> distinct (map fst es) \<and> snd (snd it) = [n. (n, File c) \<leftarrow> es]" by simp
    then show ?thesis by blast
  qed
qed

lemma walk_sound_items:
  assumes "wf_node m"
  shows "\<forall>it\<in>set (walk mod_path m). sound_item m mod_path it"
proof
  fix it assume "it \<in> set (walk mod_path m)"
  from walk_sound(1)[OF assms this] obtain q es where
    h: "fst it = mod_path @ q" "lookup m q = Some (Dir es)" "distinct (map fst es)"
       "snd (snd it) = [n. (n, File c) \<leftarrow> es]"
    by blast
  have "\<forall>f\<in>set (snd (snd it)). \<exists>c. map_of es f = Some (File c)"
    using h(3,4) by (auto simp: files_of_iff)
  with h(1,2) show "sound_item m mod_path it"
    by (cases it) (auto simp: sound_item_def)
qed

lemma lookup_file_parent:
  assumes "lookup m (q @ [f]) = Some (File c)"
  obtains es where "lookup m q = Some (Dir es)" and "map_of es f = Some (File c)"
proof -
  from assms obtain n where n: "lookup m q = Some n" and l: "lookup n [f] = Some (File c)"
    by (auto simp: lookup_append split: option.splits)
  from l obtain es where "n = Dir es" and "map_of es f = Some (File c)"
    by (cases n) (auto split: option.splits)
  with n that show ?thesis by blast
qed

lemma audio_in_walk:
  assumes "wf_node m"
  shows "(\<exists>rt ds fls f. (rt, ds, fls) \<in> set (walk mod_path m) \<and> f \<in> set fls \<and> is_audio f)
         \<longleftrightarrow> (\<exists>q f c. lookup m (q @ [f]) = Some (File c) \<and> is_audio f)"
    (is "?L \<longleftrightarrow> ?R")
proof
  assume ?L
  then obtain rt ds fls f where i: "(rt, ds, fls) \<in> set (walk mod_path m)" and f: "f \<in> set fls" "is_audio f"
    by blast
  from walk_sound_items[OF assms, of mod_path] i have "sound_item m mod_path (rt, ds, fls)" by blast
  then obtain q es where q: "lookup m q = Some (Dir es)"
    and fl: "\<forall>f\<in>set fls. \<exists>c. map_of es f = Some (File c)"
    by (auto simp: sound_item_def)
  from fl f(1) obtain c where "map_of es f = Some (File c)" by blast
  with q have "lookup m (q @ [f]) = Some (File c)" by (simp add: lookup_append)
  with f(2) show ?R by blast
next
  assume ?R
  then obtain q f c where l: "lookup m (q @ [f]) = Some (File c)" and a: "is_audio f" by blast
  from l obtain es where q: "lookup m q = Some (Dir es)" and m: "map_of es f = Some (File c)"
    by (rule lookup_file_parent)
  from walk_complete(1)[OF q, of mod_path]
  have "(mod_path @ q, [n. (n, Dir ds) \<leftarrow> es], [n. (n, File c) \<leftarrow> es]) \<in> set (walk mod_path m)" .
  moreover from m have "f \<in> set [n. (n, File c) \<leftarrow> es]"
    by (auto simp: files_of_iff dest: map_of_SomeD)
  ultimately show ?L using a by blast
qed

text \<open>
  C5. For a mod directory (a well-formed tree) with no entry of suffix \<open>.bsa\<close> among its
  immediate children, on a machine where the module's directory exists, the workspace
  path is not a plain file and the mod directory and the workspace lie apart:
  \<open>extract_bsa\<close> returns the workspace path if the tree holds a file whose name ends in
  \<open>.fuz\<close> or \<open>.xwm\<close> (in any case) and \<open>None\<close> if it holds none; and every such file, at
  the mod directory's path followed by \<open>q\<close> and the name, is afterwards in the workspace
  at the workspace path followed by the same \<open>q\<close> and name, with the same content.
\<close>

theorem extract_bsa_loose_files:
  assumes "lookup (fs w) mod_path = Some (Dir es)"
    and "wf_node (Dir es)"
    and "find (\<lambda>n. lower (suffix_of (joinpath mod_path n)) = ''.bsa'') (map fst es) = None"
    and "is_dir (fs w) (script_dir h)"
    and "\<not> is_file (fs w) (joinpath (script_dir h) ''extracted_files'')"
    and "\<not> prefix mod_path (joinpath (script_dir h) ''extracted_files'')"
    and "\<not> prefix (joinpath (script_dir h) ''extracted_files'') mod_path"
  shows "fst (extract_bsa ed h mod_path w)
           = Inr (if \<exists>q f c. lookup (fs w) (mod_path @ q @ [f]) = Some (File c) \<and> is_audio f
                  then Some (joinpath (script_dir h) ''extracted_files'') else None)
       \<and> (\<forall>q f c. lookup (fs w) (mod_path @ q @ [f]) = Some (File c) \<and> is_audio f
             \<longrightarrow> lookup (fs (snd (extract_bsa ed h mod_path w)))
                   (joinpath (script_dir h) ''extracted_files'' @ q @ [f]) = Some (File c))"
proof -
  let ?d = "joinpath (script_dir h) ''extracted_files''"
  let ?m = "Dir es"
  have src: "lookup (fs w) (mod_path @ x) = lookup ?m x" for x
    using assms(1) by (simp add: lookup_append)
  define w1 where "w1 = (if is_dir (fs w) ?d
      then emit INFO ''Removed existing directory: {extract_destination}'' [VPath ?d] w
      else w)\<lparr>fs := reset ?d (fs w)\<rparr>"
  have w1: "fs w1 = reset ?d (fs w)" by (simp add: w1_def)
  have l1: "lookup (fs w1) mod_path = Some ?m"
    using assms(1,6,7) by (simp add: w1 reset_def rmtree_def lookup_put_apart)
  have f: "find_bsa_file mod_path w1 = (Inr None, w1)"
    using l1 assms(3) by (simp add: find_bsa_file_def)
  define w2 where "w2 = w1\<lparr>fs := put ?d (Some (Dir [])) (fs w1)\<rparr>"
  have w2: "fs w2 = put ?d (Some (Dir [])) (fs w1)" by (simp add: w2_def)
  have mk: "mkdir (fs w1) ?d = Inr (fs w2)"
    using mkdir_after_reset[OF assms(4,5)] by (simp add: w1 w2)
  have l2: "lookup (fs w2) mod_path = Some ?m"
    using l1 assms(6,7) by (simp add: w2 lookup_put_apart)
  have dne: "?d \<noteq> []" by (simp add: joinpath_def)
  have par: "stat (fs w1) (butlast ?d) = Some None"
    using reset_facts(2)[OF assms(4,5)] by (simp add: w1 butlast_joinpath)
  have sd: "stat (fs w2) (?d @ x) = stat (Dir []) x" for x
    using par dne by (simp add: w2 stat_put)
  have mi: "mirror ?m mod_path ?d (fs w2)"
    unfolding mirror_def
  proof (intro conjI allI impI)
    fix x show "stat (fs w2) (mod_path @ x) = stat ?m x"
      using l2 by (simp add: stat_append)
  next
    fix x assume "stat (fs w2) (?d @ x) \<noteq> None"
    then have "x = []" unfolding sd by (cases x) (simp_all add: stat_Cons_Dir)
    then show "stat (fs w2) (?d @ x) = stat ?m x"
      using sd[of "[]"] by (simp add: stat_Nil_Dir)
  next
    show "stat (fs w2) ?d = Some None" using sd[of "[]"] by (simp add: stat_Nil_Dir)
  qed
  define items where "items = walk mod_path ?m"
  have ow: "os_walk (fs w2) mod_path = items"
    unfolding items_def os_walk_def l2 by simp
  have w12: "w1\<lparr>fs := fs w2\<rparr> = w2" by (simp add: w2_def)
  have so: "\<forall>it\<in>set items. sound_item ?m mod_path it"
    unfolding items_def by (rule walk_sound_items[OF assms(2)])
  from copy_audio_tree_ok[OF assms(6,7) so mi, of None]
  obtain afp w3 where
    run0: "copy_audio_tree ?d mod_path items None w2 = (Inr afp, w3)"
    and cp0: "\<forall>q ds fls g. (mod_path @ q, ds, fls) \<in> set items \<and> g \<in> set fls \<and> is_audio g
                \<longrightarrow> stat (fs w3) (?d @ q @ [g]) = stat ?m (q @ [g])"
    and af0: "afp \<noteq> None \<longleftrightarrow> None \<noteq> (None :: path option)
        \<or> (\<exists>rt ds fls g. (rt, ds, fls) \<in> set items \<and> g \<in> set fls \<and> is_audio g)"
    by blast
  have cp: "stat (fs w3) (?d @ q @ [g]) = stat ?m (q @ [g])"
    if "(mod_path @ q, ds, fls) \<in> set (walk mod_path ?m)" "g \<in> set fls" "is_audio g"
    for q ds fls g
    using cp0 that unfolding items_def by blast
  have af: "afp \<noteq> None \<longleftrightarrow>
        (\<exists>rt ds fls g. (rt, ds, fls) \<in> set (walk mod_path ?m) \<and> g \<in> set fls \<and> is_audio g)"
    using af0 unfolding items_def by simp
  have af': "afp \<noteq> None \<longleftrightarrow> (\<exists>q g c. lookup (fs w) (mod_path @ q @ [g]) = Some (File c) \<and> is_audio g)"
    unfolding af audio_in_walk[OF assms(2)] src ..
  have fa: "find_audio_files h mod_path w1
              = (Inr (case afp of Some a \<Rightarrow> Some ?d | None \<Rightarrow> None), w3)"
    by (simp add: find_audio_files_def Let_def bind_def mk w12 ow run0 ret_def)
  have "extract_bsa ed h mod_path w =
          (case afp of
             Some a \<Rightarrow>
               (Inr (Some ?d),
                emit INFO ''Found .fuz or .xwm files in {extracted_folder}'' [VPath ?d] w3)
           | None \<Rightarrow>
               (Inr None,
                emit ERROR ''No .bsa or .fuz/.xwm files found in {mod_path}'' [VPath mod_path] w3))"
    unfolding extract_bsa_def Let_def
    apply (subst bind_def)
    apply (subst reset_step)
    apply (fold w1_def)
    apply (cases afp)
     apply (simp_all add: bind_def f fa log_call_def ret_def)
    done
  then have res: "fst (extract_bsa ed h mod_path w) = Inr (if afp \<noteq> None then Some ?d else None)
       \<and> fs (snd (extract_bsa ed h mod_path w)) = fs w3"
    by (cases afp) (simp_all add: emit_def)
  have copied: "lookup (fs w3) (?d @ q @ [g]) = Some (File c)"
    if l: "lookup (fs w) (mod_path @ q @ [g]) = Some (File c)" and a: "is_audio g" for q g c
  proof -
    from l have lm: "lookup ?m (q @ [g]) = Some (File c)" by (simp add: src)
    then obtain es' where q: "lookup ?m q = Some (Dir es')" and m: "map_of es' g = Some (File c)"
      by (rule lookup_file_parent)
    from walk_complete(1)[OF q, of mod_path]
    have i: "(mod_path @ q, [n. (n, Dir ds) \<leftarrow> es'], [n. (n, File c) \<leftarrow> es']) \<in> set (walk mod_path ?m)" .
    from m have g: "g \<in> set [n. (n, File c) \<leftarrow> es']"
      by (auto simp: files_of_iff dest: map_of_SomeD)
    from cp[OF i g a] lm show ?thesis by (simp add: stat_file_lookup[symmetric])
  qed
  from res af' copied show ?thesis by simp
qed

theorem extract_bsa_loose_files_witness:
  "lookup (fs example_machine) [''mods'', ''m2'']
     = Some (Dir [(''sound'',
                   Dir [(''voice'',
                         Dir [(''npc'',
                               Dir [(''a.fuz'', File (Data ''A'')),
                                    (''a.lip'', File (Data ''L'')),
                                    (''b.XWM'', File (Data ''B''))])])]),
                  (''x.txt'', File (Data ''x''))])
   \<and> wf_node (Dir [(''sound'',
                   Dir [(''voice'',
                         Dir [(''npc'',
                               Dir [(''a.fuz'', File (Data ''A'')),
                                    (''a.lip'', File (Data ''L'')),
                                    (''b.XWM'', File (Data ''B''))])])]),
                  (''x.txt'', File (Data ''x''))])
   \<and> find (\<lambda>n. lower (suffix_of (joinpath [''mods'', ''m2''] n)) = ''.bsa'')
         (map fst [(''sound'',
                   Dir [(''voice'',
                         Dir [(''npc'',
                               Dir [(''a.fuz'', File (Data ''A'')),
                                    (''a.lip'', File (Data ''L'')),
                                    (''b.XWM'', File (Data ''B''))])])]),
                  (''x.txt'', File (Data ''x''))]) = None
   \<and> is_dir (fs example_machine) (script_dir (example_host 0))
   \<and> \<not> is_file (fs example_machine) (joinpath (script_dir (example_host 0)) ''extracted_files'')
   \<and> \<not> prefix [''mods'', ''m2''] (joinpath (script_dir (example_host 0)) ''extracted_files'')
   \<and> \<not> prefix (joinpath (script_dir (example_host 0)) ''extracted_files'') [''mods'', ''m2'']
   \<and> lookup (fs example_machine) ([''mods'', ''m2''] @ [''sound'', ''voice'', ''npc''] @ [''b.XWM''])
       = Some (File (Data ''B''))
   \<and> is_audio ''b.XWM''
   \<and> fst (extract_bsa example_editor (example_host 0) [''mods'', ''m2''] example_machine)
       = Inr (Some [''app'', ''extracted_files''])
   \<and> lookup (fs (snd (extract_bsa example_editor (example_host 0) [''mods'', ''m2''] example_machine)))
         [''app'', ''extracted_files'', ''sound'', ''voice'', ''npc'', ''b.XWM'']
       = Some (File (Data ''B''))"
proof -
  let ?es = "[(''sound'',
                   Dir [(''voice'',
                         Dir [(''npc'',
                               Dir [(''a.fuz'', File (Data ''A'')),
                                    (''a.lip'', File (Data ''L'')),
                                    (''b.XWM'', File (Data ''B''))])])]),
                  (''x.txt'', File (Data ''x''))]"
  have h1: "lookup (fs example_machine) [''mods'', ''m2''] = Some (Dir ?es)"
    by (simp add: example_machine_def example_disk_def)
  have h2: "wf_node (Dir ?es)" by simp
  have h3: "find (\<lambda>n. lower (suffix_of (joinpath [''mods'', ''m2''] n)) = ''.bsa'') (map fst ?es) = None"
    by (simp add: suffix_of_def name_def joinpath_def lower_def lower_char_def)
  have h4: "is_dir (fs example_machine) (script_dir (example_host 0))"
    by (simp add: is_dir_def example_machine_def example_disk_def example_host_def)
  have h5: "\<not> is_file (fs example_machine) (joinpath (script_dir (example_host 0)) ''extracted_files'')"
    by (simp add: is_file_def example_machine_def example_disk_def example_host_def joinpath_def)
  have h6: "\<not> prefix [''mods'', ''m2''] (joinpath (script_dir (example_host 0)) ''extracted_files'')"
    and h7: "\<not> prefix (joinpath (script_dir (example_host 0)) ''extracted_files'') [''mods'', ''m2'']"
    by (simp_all add: example_host_def joinpath_def)
  have l: "lookup (fs example_machine) ([''mods'', ''m2''] @ [''sound'', ''voice'', ''npc''] @ [''b.XWM''])
       = Some (File (Data ''B''))"
    by (simp add: example_machine_def example_disk_def)
  have a: "is_audio ''b.XWM''"
    by (simp add: is_audio_def endswith_def lower_def lower_char_def)
  have d: "joinpath (script_dir (example_host 0)) ''extracted_files'' = [''app'', ''extracted_files'']"
    by (simp add: example_host_def joinpath_def)
  note t = extract_bsa_loose_files[OF h1 h2 h3 h4 h5 h6 h7, of example_editor]
  from l a have ex: "\<exists>q f c. lookup (fs example_machine) ([''mods'', ''m2''] @ q @ [f]) = Some (File c)
       \<and> is_audio f" by blast
  from t ex have c1: "fst (extract_bsa example_editor (example_host 0) [''mods'', ''m2''] example_machine)
       = Inr (Some [''app'', ''extracted_files''])"
    by (simp add: d)
  from t l a have "lookup (fs (snd (extract_bsa example_editor (example_host 0) [''mods'', ''m2''] example_machine)))
         (joinpath (script_dir (example_host 0)) ''extracted_files'' @ [''sound'', ''voice'', ''npc''] @ [''b.XWM''])
       = Some (File (Data ''B''))"
    by blast
  then have c2: "lookup (fs (snd (extract_bsa example_editor (example_host 0) [''mods'', ''m2''] example_machine)))
         [''app'', ''extracted_files'', ''sound'', ''voice'', ''npc'', ''b.XWM'']
       = Some (File (Data ''B''))"
    by (simp add: d)
  from h1 h2 h3 h4 h5 h6 h7 l a c1 c2 show ?thesis by blast
qed

end
